theory Spec2Isabelle
  imports Main
begin

section \<open>The suite client of corp/suite/client.go\<close>

text \<open>
  The file \<^verbatim>\<open>src/corp/suite/client.go\<close> holds the constructor \<^verbatim>\<open>NewClient\<close> and the two
  request executors \<^verbatim>\<open>PostJSON\<close> and \<^verbatim>\<open>GetJSON\<close>. Everything they call outside the file
  (the token server, the HTTP client, encoding/json, url.QueryEscape) is a parameter of
  the model; every call to such a collaborator is recorded, in order, in a list of events.
\<close>

subsection \<open>Errors, events and HTTP responses\<close>

type_synonym bytes = string

text \<open>
  A Go \<^verbatim>\<open>error\<close> value: either one handed over by a collaborator (opaque, named by a
  string), or the one built by \<^verbatim>\<open>fmt.Errorf\<close> in this file, which is its message.
\<close>

datatype error = Foreign string | Errorf string

text \<open>What a call gives back: the named result \<^verbatim>\<open>err\<close> (\<open>None\<close> is Go's nil), or a panic.\<close>

datatype ret = Return "error option" | Panic

datatype event =
    CallEncode
  | CallToken
  | CallTokenRefresh
  | CallPost string string bytes
  | CallGet string
  | CallDecode

record 'b Response =
  StatusCode :: int
  Status :: string
  Body :: 'b

subsection \<open>Go values as seen through package reflect\<close>

text \<open>
  The variable that \<^verbatim>\<open>response\<close> points to has a static type and a current value. The
  fragment of Go's types modelled: signed integers, strings, booleans, slices, structs.
  An integer is read with \<^verbatim>\<open>Value.Int()\<close> and only compared with constants, never
  computed with, so it is an \<open>int\<close> here.
\<close>

datatype gtype = TInt | TString | TBool | TSlice gtype | TStruct "gtype list"

datatype gval = VInt int | VString string | VBool bool | VSlice "gval list" | VStruct "gval list"

datatype kind = KInt | KString | KBool | KSlice | KStruct

text \<open>\<^verbatim>\<open>reflect.New(t).Elem()\<close>: the zero value of a type.\<close>

fun zero :: "gtype \<Rightarrow> gval" where
  "zero TInt = VInt 0"
| "zero TString = VString []"
| "zero TBool = VBool False"
| "zero (TSlice t) = VSlice []"
| "zero (TStruct ts) = VStruct (map zero ts)"

fun Kind :: "gval \<Rightarrow> kind" where
  "Kind (VInt n) = KInt"
| "Kind (VString s) = KString"
| "Kind (VBool b) = KBool"
| "Kind (VSlice xs) = KSlice"
| "Kind (VStruct fs) = KStruct"

text \<open>
  \<^verbatim>\<open>Value.Field(i)\<close> panics on a value that is no struct and on an index out of range;
  \<^verbatim>\<open>Value.Int()\<close> panics on a value that is no signed integer. \<open>None\<close> is the panic.
\<close>

fun Field :: "gval \<Rightarrow> nat \<Rightarrow> gval option" where
  "Field (VStruct fs) i = (if i < length fs then Some (fs ! i) else None)"
| "Field v i = None"

fun Int_of :: "gval \<Rightarrow> int option" where
  "Int_of (VInt n) = Some n"
| "Int_of v = None"

text \<open>
  Lines 94 to 99 of \<^verbatim>\<open>PostJSON\<close> (164 to 169 of \<^verbatim>\<open>GetJSON\<close>, the same text): the
  struct that holds the error code is field 0 of the response when that field is a
  struct, the response itself otherwise.
\<close>

definition ErrorStructValue :: "gval \<Rightarrow> gval option" where
  "ErrorStructValue responseStructValue =
     (case Field responseStructValue 0 of
        None \<Rightarrow> None
      | Some v \<Rightarrow> if Kind v = KStruct then Some v else Some responseStructValue)"

subsection \<open>The collaborators\<close>

text \<open>
  The token server and the HTTP client act on a world \<open>'w\<close> that the model threads through
  every call. The encoder, the decoder and \<^verbatim>\<open>url.QueryEscape\<close> are functions;
  the decoder is given the body, the static type and the current value of the response
  variable and returns its error and the variable's new value (encoding/json leaves
  alone what the body does not mention, and may have written part of the value when it
  fails). \<^verbatim>\<open>corp.ErrCodeSuiteAccessTokenExpired\<close> is declared outside src/ and is a
  parameter too.
\<close>

record 'w AccessTokenServer =
  Token :: "'w \<Rightarrow> (error + string) \<times> 'w"
  TokenRefresh :: "'w \<Rightarrow> (error + string) \<times> 'w"

record ('w, 'b) http_Client =
  Post :: "string \<Rightarrow> string \<Rightarrow> bytes \<Rightarrow> 'w \<Rightarrow> (error + 'b Response) \<times> 'w"
  Get :: "string \<Rightarrow> 'w \<Rightarrow> (error + 'b Response) \<times> 'w"

record ('b, 'req) externals =
  Encode :: "'req \<Rightarrow> error + bytes"
  Decode :: "'b \<Rightarrow> gtype \<Rightarrow> gval \<Rightarrow> error option \<times> gval"
  QueryEscape :: "string \<Rightarrow> string"
  ErrCodeSuiteAccessTokenExpired :: int

text \<open>
  Modelled from the spec: \<^verbatim>\<open>corp.ErrCodeOK\<close> is declared in package corp, outside src/;
  the spec gives the status sentinel \<open>0\<close> for success.
\<close>

definition ErrCodeOK :: int where
  "ErrCodeOK = 0"

subsection \<open>NewClient\<close>

text \<open>
  An interface value or a pointer is an option, \<open>None\<close> being nil.
  \<^verbatim>\<open>http.DefaultClient\<close> is the address of the client that net/http allocates, given here
  as the object \<open>dflt\<close>. The result is \<open>Inl\<close> of the panic message or \<open>Inr\<close> of the client.
\<close>

record ('a, 'h) Client =
  SuiteId :: string
  AccessTokenServer :: "'a option"
  HttpClient :: "'h option"

definition NewClient :: "'h \<Rightarrow> string \<Rightarrow> 'a option \<Rightarrow> 'h option \<Rightarrow> string + ('a, 'h) Client" where
  "NewClient dflt suiteId srv hc =
     (if suiteId = [] then Inl ''empty SuiteId''
      else if srv = None then Inl ''AccessTokenServer == nil''
      else Inr \<lparr> SuiteId = suiteId,
                  AccessTokenServer = srv,
                  HttpClient = (if hc = None then Some dflt else hc) \<rparr>)"

subsection \<open>PostJSON and GetJSON\<close>

text \<open>
  What a call leaves behind: its return, the value of the response variable, the world,
  and the calls it made to its collaborators, oldest first.
\<close>

record 'w outcome =
  err :: ret
  response :: gval
  world :: 'w
  calls :: "event list"

text \<open>
  The code from the label \<^verbatim>\<open>RETRY\<close> to the end of \<^verbatim>\<open>PostJSON\<close>. The variables that change
  between two passes are arguments: \<open>token\<close>, \<open>hasRetried\<close>, the response variable \<open>rv\<close>,
  the world and the calls so far. \<^verbatim>\<open>goto RETRY\<close> is the recursive call. The calls to
  \<^verbatim>\<open>corp.LogInfoln\<close> are left out; \<^verbatim>\<open>Field(1)\<close>, evaluated for them, can panic and is kept.
\<close>

function PostJSON_RETRY ::
  "('b, 'req) externals \<Rightarrow> 'w AccessTokenServer \<Rightarrow> ('w, 'b) http_Client \<Rightarrow> string \<Rightarrow> bytes \<Rightarrow>
   gtype \<Rightarrow> string \<Rightarrow> bool \<Rightarrow> gval \<Rightarrow> 'w \<Rightarrow> event list \<Rightarrow> 'w outcome" where
  "PostJSON_RETRY X srv hc incompleteURL requestBytes rty token hasRetried rv w tr =
     (let finalURL = incompleteURL @ QueryEscape X token;
          tr1 = tr @ [CallPost finalURL ''application/json; charset=utf-8'' requestBytes]
      in case Post hc finalURL ''application/json; charset=utf-8'' requestBytes w of
        (Inl e, w1) \<Rightarrow> \<lparr> err = Return (Some e), response = rv, world = w1, calls = tr1 \<rparr>
      | (Inr httpResp, w1) \<Rightarrow>
          if StatusCode httpResp \<noteq> 200
          then \<lparr> err = Return (Some (Errorf (''http.Status: '' @ Status httpResp))),
                 response = rv, world = w1, calls = tr1 \<rparr>
          else
            (let tr2 = tr1 @ [CallDecode]
             in case Decode X (Body httpResp) rty rv of
               (Some e, rv1) \<Rightarrow> \<lparr> err = Return (Some e), response = rv1, world = w1, calls = tr2 \<rparr>
             | (None, rv1) \<Rightarrow>
                (case ErrorStructValue rv1 of
                   None \<Rightarrow> \<lparr> err = Panic, response = rv1, world = w1, calls = tr2 \<rparr>
                 | Some esv \<Rightarrow>
                    (case Option.bind (Field esv 0) Int_of of
                       None \<Rightarrow> \<lparr> err = Panic, response = rv1, world = w1, calls = tr2 \<rparr>
                     | Some ErrCode \<Rightarrow>
                        if ErrCode = ErrCodeOK
                        then \<lparr> err = Return None, response = rv1, world = w1, calls = tr2 \<rparr>
                        else if ErrCode = ErrCodeSuiteAccessTokenExpired X
                        then
                          (case Field esv 1 of
                             None \<Rightarrow> \<lparr> err = Panic, response = rv1, world = w1, calls = tr2 \<rparr>
                           | Some ErrMsg \<Rightarrow>
                              if \<not> hasRetried
                              then
                                (case TokenRefresh srv w1 of
                                   (Inl e, w2) \<Rightarrow>
                                     \<lparr> err = Return (Some e), response = rv1, world = w2,
                                       calls = tr2 @ [CallTokenRefresh] \<rparr>
                                 | (Inr token', w2) \<Rightarrow>
                                     PostJSON_RETRY X srv hc incompleteURL requestBytes rty
                                       token' True (zero rty) w2 (tr2 @ [CallTokenRefresh]))
                              else \<lparr> err = Return None, response = rv1, world = w1, calls = tr2 \<rparr>)
                        else \<lparr> err = Return None, response = rv1, world = w1, calls = tr2 \<rparr>))))"
  by pat_completeness auto
termination
  by (relation "measure (\<lambda>(X, srv, hc, incompleteURL, requestBytes, rty, token, hasRetried, rv, w, tr).
                  if hasRetried then 0 else 1)") auto

declare PostJSON_RETRY.simps [simp del]

text \<open>
  \<^verbatim>\<open>PostJSON\<close>: encode the request (the pooled buffer only carries the bytes), fetch the
  token, enter the loop. \<^verbatim>\<open>response\<close> is a non-nil pointer, as the NOTE of the function
  asks; \<open>rty\<close> and \<open>rv\<close> are the type and the value of the variable it points to.
  \<open>srv\<close> and \<open>hc\<close> are the client's token server and HTTP client, which a client
  built by \<^verbatim>\<open>NewClient\<close> has.
\<close>

definition PostJSON ::
  "('b, 'req) externals \<Rightarrow> 'w AccessTokenServer \<Rightarrow> ('w, 'b) http_Client \<Rightarrow> string \<Rightarrow> 'req \<Rightarrow>
   gtype \<Rightarrow> gval \<Rightarrow> 'w \<Rightarrow> 'w outcome" where
  "PostJSON X srv hc incompleteURL request rty rv w =
     (case Encode X request of
        Inl e \<Rightarrow> \<lparr> err = Return (Some e), response = rv, world = w, calls = [CallEncode] \<rparr>
      | Inr requestBytes \<Rightarrow>
         (case Token srv w of
            (Inl e, w1) \<Rightarrow>
              \<lparr> err = Return (Some e), response = rv, world = w1, calls = [CallEncode, CallToken] \<rparr>
          | (Inr token, w1) \<Rightarrow>
              PostJSON_RETRY X srv hc incompleteURL requestBytes rty token False rv w1
                [CallEncode, CallToken]))"

text \<open>
  The code from the label \<^verbatim>\<open>RETRY\<close> to the end of \<^verbatim>\<open>GetJSON\<close>, written out from
  lines 144 to 194 in the same way.
\<close>

function GetJSON_RETRY ::
  "('b, 'req) externals \<Rightarrow> 'w AccessTokenServer \<Rightarrow> ('w, 'b) http_Client \<Rightarrow> string \<Rightarrow>
   gtype \<Rightarrow> string \<Rightarrow> bool \<Rightarrow> gval \<Rightarrow> 'w \<Rightarrow> event list \<Rightarrow> 'w outcome" where
  "GetJSON_RETRY X srv hc incompleteURL rty token hasRetried rv w tr =
     (let finalURL = incompleteURL @ QueryEscape X token;
          tr1 = tr @ [CallGet finalURL]
      in case Get hc finalURL w of
        (Inl e, w1) \<Rightarrow> \<lparr> err = Return (Some e), response = rv, world = w1, calls = tr1 \<rparr>
      | (Inr httpResp, w1) \<Rightarrow>
          if StatusCode httpResp \<noteq> 200
          then \<lparr> err = Return (Some (Errorf (''http.Status: '' @ Status httpResp))),
                 response = rv, world = w1, calls = tr1 \<rparr>
          else
            (let tr2 = tr1 @ [CallDecode]
             in case Decode X (Body httpResp) rty rv of
               (Some e, rv1) \<Rightarrow> \<lparr> err = Return (Some e), response = rv1, world = w1, calls = tr2 \<rparr>
             | (None, rv1) \<Rightarrow>
                (case ErrorStructValue rv1 of
                   None \<Rightarrow> \<lparr> err = Panic, response = rv1, world = w1, calls = tr2 \<rparr>
                 | Some esv \<Rightarrow>
                    (case Option.bind (Field esv 0) Int_of of
                       None \<Rightarrow> \<lparr> err = Panic, response = rv1, world = w1, calls = tr2 \<rparr>
                     | Some ErrCode \<Rightarrow>
                        if ErrCode = ErrCodeOK
                        then \<lparr> err = Return None, response = rv1, world = w1, calls = tr2 \<rparr>
                        else if ErrCode = ErrCodeSuiteAccessTokenExpired X
                        then
                          (case Field esv 1 of
                             None \<Rightarrow> \<lparr> err = Panic, response = rv1, world = w1, calls = tr2 \<rparr>
                           | Some ErrMsg \<Rightarrow>
                              if \<not> hasRetried
                              then
                                (case TokenRefresh srv w1 of
                                   (Inl e, w2) \<Rightarrow>
                                     \<lparr> err = Return (Some e), response = rv1, world = w2,
                                       calls = tr2 @ [CallTokenRefresh] \<rparr>
                                 | (Inr token', w2) \<Rightarrow>
                                     GetJSON_RETRY X srv hc incompleteURL rty
                                       token' True (zero rty) w2 (tr2 @ [CallTokenRefresh]))
                              else \<lparr> err = Return None, response = rv1, world = w1, calls = tr2 \<rparr>)
                        else \<lparr> err = Return None, response = rv1, world = w1, calls = tr2 \<rparr>))))"
  by pat_completeness auto
termination
  by (relation "measure (\<lambda>(X, srv, hc, incompleteURL, rty, token, hasRetried, rv, w, tr).
                  if hasRetried then 0 else 1)") auto

declare GetJSON_RETRY.simps [simp del]

definition GetJSON ::
  "('b, 'req) externals \<Rightarrow> 'w AccessTokenServer \<Rightarrow> ('w, 'b) http_Client \<Rightarrow> string \<Rightarrow>
   gtype \<Rightarrow> gval \<Rightarrow> 'w \<Rightarrow> 'w outcome" where
  "GetJSON X srv hc incompleteURL rty rv w =
     (case Token srv w of
        (Inl e, w1) \<Rightarrow> \<lparr> err = Return (Some e), response = rv, world = w1, calls = [CallToken] \<rparr>
      | (Inr token, w1) \<Rightarrow> GetJSON_RETRY X srv hc incompleteURL rty token False rv w1 [CallToken])"

subsection \<open>Reading a list of calls\<close>

definition http_calls :: "event list \<Rightarrow> nat" where
  "http_calls tr = length (filter (\<lambda>e. case e of CallPost u c b \<Rightarrow> True | CallGet u \<Rightarrow> True | _ \<Rightarrow> False) tr)"

definition refreshes :: "event list \<Rightarrow> nat" where
  "refreshes tr = length (filter (\<lambda>e. e = CallTokenRefresh) tr)"

text \<open>A POST seen as the GET of the same URL: the body and the content type are dropped.\<close>

fun as_get :: "event \<Rightarrow> event" where
  "as_get (CallPost u c b) = CallGet u"
| "as_get e = e"

text \<open>
  Line 101 reads the error code as \<^verbatim>\<open>ErrorStructValue.Field(0).Int()\<close> and line 105 the
  message from \<^verbatim>\<open>ErrorStructValue.Field(1)\<close>; the same two reads of a response value:
\<close>

definition ErrCode_of :: "gval \<Rightarrow> int option" where
  "ErrCode_of v = Option.bind (ErrorStructValue v) (\<lambda>esv. Option.bind (Field esv 0) Int_of)"

definition ErrMsg_of :: "gval \<Rightarrow> gval option" where
  "ErrMsg_of v = Option.bind (ErrorStructValue v) (\<lambda>esv. Field esv 1)"

abbreviation (input) ctype :: string where
  "ctype \<equiv> ''application/json; charset=utf-8''"

subsection \<open>A concrete environment\<close>

text \<open>
  Concrete collaborators, to run the model on inputs. The world is the number of HTTP
  calls answered so far; the server answers the \<open>n\<close>-th call with the \<open>n\<close>-th response of
  a script and refuses the connection after that. A body is \<open>None\<close> when it is no JSON,
  and otherwise says, for each field of the response struct in turn, the value the JSON
  gives it (\<open>None\<close> where the JSON does not mention the field, which the decoder then
  leaves as it is).
\<close>

type_synonym demo_body = "gval option list option"

fun merge_fields :: "gval option list \<Rightarrow> gval list \<Rightarrow> gval list" where
  "merge_fields (Some v # us) (f # fs) = v # merge_fields us fs"
| "merge_fields (None # us) (f # fs) = f # merge_fields us fs"
| "merge_fields us fs = fs"

fun demo_Decode :: "demo_body \<Rightarrow> gtype \<Rightarrow> gval \<Rightarrow> error option \<times> gval" where
  "demo_Decode None t v = (Some (Foreign ''invalid character''), v)"
| "demo_Decode (Some us) t (VStruct fs) = (None, VStruct (merge_fields us fs))"
| "demo_Decode (Some us) t v = (Some (Foreign ''cannot unmarshal object''), v)"

definition demo_externals :: "(demo_body, string) externals" where
  "demo_externals =
     \<lparr> Encode = (\<lambda>request. Inr request), Decode = demo_Decode,
       QueryEscape = (\<lambda>s. s), ErrCodeSuiteAccessTokenExpired = 42001 \<rparr>"

definition demo_server :: "nat AccessTokenServer" where
  "demo_server =
     \<lparr> Token = (\<lambda>w. (Inr ''T1'', w)), TokenRefresh = (\<lambda>w. (Inr ''T2'', w)) \<rparr>"

definition down_server :: "nat AccessTokenServer" where
  "down_server =
     \<lparr> Token = (\<lambda>w. (Inl (Foreign ''token server down''), w)),
       TokenRefresh = (\<lambda>w. (Inl (Foreign ''token server down''), w)) \<rparr>"

definition answer :: "'b Response list \<Rightarrow> nat \<Rightarrow> (error + 'b Response) \<times> nat" where
  "answer script w =
     (if w < length script then (Inr (script ! w), Suc w)
      else (Inl (Foreign ''connection refused''), Suc w))"

definition scripted :: "'b Response list \<Rightarrow> (nat, 'b) http_Client" where
  "scripted script = \<lparr> Post = (\<lambda>url ctype body. answer script), Get = (\<lambda>url. answer script) \<rparr>"

definition ok200 :: "'b \<Rightarrow> 'b Response" where
  "ok200 b = \<lparr> StatusCode = 200, Status = ''200 OK'', Body = b \<rparr>"

section \<open>One pass of the loop, case by case\<close>

text \<open>Each lemma unfolds the loop of \<^verbatim>\<open>PostJSON\<close> once, along one path through its body.\<close>

lemma PostJSON_RETRY_neterr:
  assumes "Post hc (incompleteURL @ QueryEscape X token) ctype requestBytes w = (Inl e, w1)"
  shows "PostJSON_RETRY X srv hc incompleteURL requestBytes rty token hasRetried rv w tr =
           \<lparr> err = Return (Some e), response = rv, world = w1,
             calls = tr @ [CallPost (incompleteURL @ QueryEscape X token) ctype requestBytes] \<rparr>"
  using assms by (subst PostJSON_RETRY.simps) (simp add: Let_def)

lemma PostJSON_RETRY_status:
  assumes "Post hc (incompleteURL @ QueryEscape X token) ctype requestBytes w = (Inr httpResp, w1)"
    and "StatusCode httpResp \<noteq> 200"
  shows "PostJSON_RETRY X srv hc incompleteURL requestBytes rty token hasRetried rv w tr =
           \<lparr> err = Return (Some (Errorf (''http.Status: '' @ Status httpResp))), response = rv,
             world = w1,
             calls = tr @ [CallPost (incompleteURL @ QueryEscape X token) ctype requestBytes] \<rparr>"
  using assms by (subst PostJSON_RETRY.simps) (simp add: Let_def)

lemma PostJSON_RETRY_decode_err:
  assumes "Post hc (incompleteURL @ QueryEscape X token) ctype requestBytes w = (Inr httpResp, w1)"
    and "StatusCode httpResp = 200"
    and "Decode X (Body httpResp) rty rv = (Some e, rv1)"
  shows "PostJSON_RETRY X srv hc incompleteURL requestBytes rty token hasRetried rv w tr =
           \<lparr> err = Return (Some e), response = rv1, world = w1,
             calls = tr @ [CallPost (incompleteURL @ QueryEscape X token) ctype requestBytes,
                           CallDecode] \<rparr>"
  using assms by (subst PostJSON_RETRY.simps) (simp add: Let_def)

lemma PostJSON_RETRY_ok:
  assumes "Post hc (incompleteURL @ QueryEscape X token) ctype requestBytes w = (Inr httpResp, w1)"
    and "StatusCode httpResp = 200"
    and "Decode X (Body httpResp) rty rv = (None, rv1)"
    and "ErrCode_of rv1 = Some ErrCodeOK"
  shows "PostJSON_RETRY X srv hc incompleteURL requestBytes rty token hasRetried rv w tr =
           \<lparr> err = Return None, response = rv1, world = w1,
             calls = tr @ [CallPost (incompleteURL @ QueryEscape X token) ctype requestBytes,
                           CallDecode] \<rparr>"
  using assms
  by (subst PostJSON_RETRY.simps)
     (auto simp: ErrCode_of_def Let_def split: option.splits Option.bind_splits)

lemma PostJSON_RETRY_other:
  assumes "Post hc (incompleteURL @ QueryEscape X token) ctype requestBytes w = (Inr httpResp, w1)"
    and "StatusCode httpResp = 200"
    and "Decode X (Body httpResp) rty rv = (None, rv1)"
    and "ErrCode_of rv1 = Some code"
    and "code \<noteq> ErrCodeSuiteAccessTokenExpired X"
  shows "PostJSON_RETRY X srv hc incompleteURL requestBytes rty token hasRetried rv w tr =
           \<lparr> err = Return None, response = rv1, world = w1,
             calls = tr @ [CallPost (incompleteURL @ QueryEscape X token) ctype requestBytes,
                           CallDecode] \<rparr>"
  using assms
  by (subst PostJSON_RETRY.simps)
     (auto simp: ErrCode_of_def Let_def split: option.splits Option.bind_splits)

lemma PostJSON_RETRY_exhausted:
  assumes "Post hc (incompleteURL @ QueryEscape X token) ctype requestBytes w = (Inr httpResp, w1)"
    and "StatusCode httpResp = 200"
    and "Decode X (Body httpResp) rty rv = (None, rv1)"
    and "ErrCode_of rv1 = Some (ErrCodeSuiteAccessTokenExpired X)"
    and "ErrMsg_of rv1 = Some ErrMsg"
  shows "PostJSON_RETRY X srv hc incompleteURL requestBytes rty token True rv w tr =
           \<lparr> err = Return None, response = rv1, world = w1,
             calls = tr @ [CallPost (incompleteURL @ QueryEscape X token) ctype requestBytes,
                           CallDecode] \<rparr>"
  using assms
  by (subst PostJSON_RETRY.simps)
     (auto simp: ErrCode_of_def ErrMsg_of_def Let_def split: option.splits Option.bind_splits)

lemma PostJSON_RETRY_goto:
  assumes "Post hc (incompleteURL @ QueryEscape X token) ctype requestBytes w = (Inr httpResp, w1)"
    and "StatusCode httpResp = 200"
    and "Decode X (Body httpResp) rty rv = (None, rv1)"
    and "ErrCode_of rv1 = Some (ErrCodeSuiteAccessTokenExpired X)"
    and "ErrCodeSuiteAccessTokenExpired X \<noteq> ErrCodeOK"
    and "ErrMsg_of rv1 = Some ErrMsg"
    and "TokenRefresh srv w1 = (Inr token', w2)"
  shows "PostJSON_RETRY X srv hc incompleteURL requestBytes rty token False rv w tr =
           PostJSON_RETRY X srv hc incompleteURL requestBytes rty token' True (zero rty) w2
             (tr @ [CallPost (incompleteURL @ QueryEscape X token) ctype requestBytes,
                    CallDecode, CallTokenRefresh])"
  using assms
  by (subst PostJSON_RETRY.simps)
     (auto simp: ErrCode_of_def ErrMsg_of_def Let_def split: option.splits Option.bind_splits)

lemma PostJSON_RETRY_refresh_err:
  assumes "Post hc (incompleteURL @ QueryEscape X token) ctype requestBytes w = (Inr httpResp, w1)"
    and "StatusCode httpResp = 200"
    and "Decode X (Body httpResp) rty rv = (None, rv1)"
    and "ErrCode_of rv1 = Some (ErrCodeSuiteAccessTokenExpired X)"
    and "ErrCodeSuiteAccessTokenExpired X \<noteq> ErrCodeOK"
    and "ErrMsg_of rv1 = Some ErrMsg"
    and "TokenRefresh srv w1 = (Inl e, w2)"
  shows "PostJSON_RETRY X srv hc incompleteURL requestBytes rty token False rv w tr =
           \<lparr> err = Return (Some e), response = rv1, world = w2,
             calls = tr @ [CallPost (incompleteURL @ QueryEscape X token) ctype requestBytes,
                    CallDecode, CallTokenRefresh] \<rparr>"
  using assms
  by (subst PostJSON_RETRY.simps)
     (auto simp: ErrCode_of_def ErrMsg_of_def Let_def split: option.splits Option.bind_splits)

text \<open>The same paths through the loop of \<^verbatim>\<open>GetJSON\<close>.\<close>

lemma GetJSON_RETRY_neterr:
  assumes "Get hc (incompleteURL @ QueryEscape X token) w = (Inl e, w1)"
  shows "GetJSON_RETRY X srv hc incompleteURL rty token hasRetried rv w tr =
           \<lparr> err = Return (Some e), response = rv, world = w1,
             calls = tr @ [CallGet (incompleteURL @ QueryEscape X token)] \<rparr>"
  using assms by (subst GetJSON_RETRY.simps) (simp add: Let_def)

lemma GetJSON_RETRY_status:
  assumes "Get hc (incompleteURL @ QueryEscape X token) w = (Inr httpResp, w1)"
    and "StatusCode httpResp \<noteq> 200"
  shows "GetJSON_RETRY X srv hc incompleteURL rty token hasRetried rv w tr =
           \<lparr> err = Return (Some (Errorf (''http.Status: '' @ Status httpResp))), response = rv,
             world = w1,
             calls = tr @ [CallGet (incompleteURL @ QueryEscape X token)] \<rparr>"
  using assms by (subst GetJSON_RETRY.simps) (simp add: Let_def)

lemma GetJSON_RETRY_decode_err:
  assumes "Get hc (incompleteURL @ QueryEscape X token) w = (Inr httpResp, w1)"
    and "StatusCode httpResp = 200"
    and "Decode X (Body httpResp) rty rv = (Some e, rv1)"
  shows "GetJSON_RETRY X srv hc incompleteURL rty token hasRetried rv w tr =
           \<lparr> err = Return (Some e), response = rv1, world = w1,
             calls = tr @ [CallGet (incompleteURL @ QueryEscape X token),
                           CallDecode] \<rparr>"
  using assms by (subst GetJSON_RETRY.simps) (simp add: Let_def)

lemma GetJSON_RETRY_ok:
  assumes "Get hc (incompleteURL @ QueryEscape X token) w = (Inr httpResp, w1)"
    and "StatusCode httpResp = 200"
    and "Decode X (Body httpResp) rty rv = (None, rv1)"
    and "ErrCode_of rv1 = Some ErrCodeOK"
  shows "GetJSON_RETRY X srv hc incompleteURL rty token hasRetried rv w tr =
           \<lparr> err = Return None, response = rv1, world = w1,
             calls = tr @ [CallGet (incompleteURL @ QueryEscape X token),
                           CallDecode] \<rparr>"
  using assms
  by (subst GetJSON_RETRY.simps)
     (auto simp: ErrCode_of_def Let_def split: option.splits Option.bind_splits)

lemma GetJSON_RETRY_other:
  assumes "Get hc (incompleteURL @ QueryEscape X token) w = (Inr httpResp, w1)"
    and "StatusCode httpResp = 200"
    and "Decode X (Body httpResp) rty rv = (None, rv1)"
    and "ErrCode_of rv1 = Some code"
    and "code \<noteq> ErrCodeSuiteAccessTokenExpired X"
  shows "GetJSON_RETRY X srv hc incompleteURL rty token hasRetried rv w tr =
           \<lparr> err = Return None, response = rv1, world = w1,
             calls = tr @ [CallGet (incompleteURL @ QueryEscape X token),
                           CallDecode] \<rparr>"
  using assms
  by (subst GetJSON_RETRY.simps)
     (auto simp: ErrCode_of_def Let_def split: option.splits Option.bind_splits)

lemma GetJSON_RETRY_exhausted:
  assumes "Get hc (incompleteURL @ QueryEscape X token) w = (Inr httpResp, w1)"
    and "StatusCode httpResp = 200"
    and "Decode X (Body httpResp) rty rv = (None, rv1)"
    and "ErrCode_of rv1 = Some (ErrCodeSuiteAccessTokenExpired X)"
    and "ErrMsg_of rv1 = Some ErrMsg"
  shows "GetJSON_RETRY X srv hc incompleteURL rty token True rv w tr =
           \<lparr> err = Return None, response = rv1, world = w1,
             calls = tr @ [CallGet (incompleteURL @ QueryEscape X token),
                           CallDecode] \<rparr>"
  using assms
  by (subst GetJSON_RETRY.simps)
     (auto simp: ErrCode_of_def ErrMsg_of_def Let_def split: option.splits Option.bind_splits)

lemma GetJSON_RETRY_goto:
  assumes "Get hc (incompleteURL @ QueryEscape X token) w = (Inr httpResp, w1)"
    and "StatusCode httpResp = 200"
    and "Decode X (Body httpResp) rty rv = (None, rv1)"
    and "ErrCode_of rv1 = Some (ErrCodeSuiteAccessTokenExpired X)"
    and "ErrCodeSuiteAccessTokenExpired X \<noteq> ErrCodeOK"
    and "ErrMsg_of rv1 = Some ErrMsg"
    and "TokenRefresh srv w1 = (Inr token', w2)"
  shows "GetJSON_RETRY X srv hc incompleteURL rty token False rv w tr =
           GetJSON_RETRY X srv hc incompleteURL rty token' True (zero rty) w2
             (tr @ [CallGet (incompleteURL @ QueryEscape X token),
                    CallDecode, CallTokenRefresh])"
  using assms
  by (subst GetJSON_RETRY.simps)
     (auto simp: ErrCode_of_def ErrMsg_of_def Let_def split: option.splits Option.bind_splits)

lemma GetJSON_RETRY_refresh_err:
  assumes "Get hc (incompleteURL @ QueryEscape X token) w = (Inr httpResp, w1)"
    and "StatusCode httpResp = 200"
    and "Decode X (Body httpResp) rty rv = (None, rv1)"
    and "ErrCode_of rv1 = Some (ErrCodeSuiteAccessTokenExpired X)"
    and "ErrCodeSuiteAccessTokenExpired X \<noteq> ErrCodeOK"
    and "ErrMsg_of rv1 = Some ErrMsg"
    and "TokenRefresh srv w1 = (Inl e, w2)"
  shows "GetJSON_RETRY X srv hc incompleteURL rty token False rv w tr =
           \<lparr> err = Return (Some e), response = rv1, world = w2,
             calls = tr @ [CallGet (incompleteURL @ QueryEscape X token),
                    CallDecode, CallTokenRefresh] \<rparr>"
  using assms
  by (subst GetJSON_RETRY.simps)
     (auto simp: ErrCode_of_def ErrMsg_of_def Let_def split: option.splits Option.bind_splits)

section \<open>The two passes unfolded\<close>

text \<open>
  The loop with \<open>hasRetried\<close> set has no recursive call left; the loop with \<open>hasRetried\<close>
  clear calls only that one.
\<close>

lemmas PostJSON_RETRY_after = PostJSON_RETRY.simps [where hasRetried = True, simplified]
lemmas PostJSON_RETRY_first = PostJSON_RETRY.simps [where hasRetried = False, simplified]
lemmas GetJSON_RETRY_after = GetJSON_RETRY.simps [where hasRetried = True, simplified]
lemmas GetJSON_RETRY_first = GetJSON_RETRY.simps [where hasRetried = False, simplified]

text \<open>
  A pass appends to the list of calls and never reads it: a loop started with the calls
  \<open>tr\<close> behaves as the loop started with no calls, with \<open>tr\<close> put in front.
\<close>

lemma PostJSON_RETRY_calls_after_retry:
  "PostJSON_RETRY X srv hc incompleteURL requestBytes rty token True rv w tr =
   (PostJSON_RETRY X srv hc incompleteURL requestBytes rty token True rv w [])
     \<lparr> calls := tr @ calls (PostJSON_RETRY X srv hc incompleteURL requestBytes rty token True rv w []) \<rparr>"
  by (simp add: PostJSON_RETRY_after Let_def split: prod.splits sum.splits option.splits)

lemma PostJSON_RETRY_calls_first:
  "PostJSON_RETRY X srv hc incompleteURL requestBytes rty token False rv w tr =
   (PostJSON_RETRY X srv hc incompleteURL requestBytes rty token False rv w [])
     \<lparr> calls := tr @ calls (PostJSON_RETRY X srv hc incompleteURL requestBytes rty token False rv w []) \<rparr>"
  by (simp add: PostJSON_RETRY_first PostJSON_RETRY_after Let_def
        split: prod.splits sum.splits option.splits)

lemma GetJSON_RETRY_calls_after_retry:
  "GetJSON_RETRY X srv hc incompleteURL rty token True rv w tr =
   (GetJSON_RETRY X srv hc incompleteURL rty token True rv w [])
     \<lparr> calls := tr @ calls (GetJSON_RETRY X srv hc incompleteURL rty token True rv w []) \<rparr>"
  by (simp add: GetJSON_RETRY_after Let_def split: prod.splits sum.splits option.splits)

lemma GetJSON_RETRY_calls_first:
  "GetJSON_RETRY X srv hc incompleteURL rty token False rv w tr =
   (GetJSON_RETRY X srv hc incompleteURL rty token False rv w [])
     \<lparr> calls := tr @ calls (GetJSON_RETRY X srv hc incompleteURL rty token False rv w []) \<rparr>"
  by (simp add: GetJSON_RETRY_first GetJSON_RETRY_after Let_def
        split: prod.splits sum.splits option.splits)

lemma RETRY_same:
  assumes same: "\<forall>url v. Post hc url ctype requestBytes v = Get hc url v"
  shows "GetJSON_RETRY X srv hc incompleteURL rty token hasRetried rv w (map as_get tr) =
         (PostJSON_RETRY X srv hc incompleteURL requestBytes rty token hasRetried rv w tr)
           \<lparr> calls := map as_get
               (calls (PostJSON_RETRY X srv hc incompleteURL requestBytes rty token hasRetried rv w tr)) \<rparr>"
  by (cases hasRetried)
     (simp_all add: PostJSON_RETRY_first PostJSON_RETRY_after GetJSON_RETRY_first
        GetJSON_RETRY_after same [rule_format, symmetric] Let_def
        split: prod.splits sum.splits option.splits)

section \<open>At most two HTTP calls and one refresh\<close>

text \<open>
  Whatever the collaborators answer, a call makes at most two HTTP calls and at most one
  call of \<^verbatim>\<open>TokenRefresh\<close>; the loop entered after a retry makes at most one HTTP call
  and no refresh.
\<close>

lemma http_calls_simps:
  "http_calls [] = 0"
  "http_calls (CallPost u c b # tr) = Suc (http_calls tr)"
  "http_calls (CallGet u # tr) = Suc (http_calls tr)"
  "http_calls (CallDecode # tr) = http_calls tr"
  "http_calls (CallTokenRefresh # tr) = http_calls tr"
  "http_calls (CallToken # tr) = http_calls tr"
  "http_calls (CallEncode # tr) = http_calls tr"
  by (simp_all add: http_calls_def)

lemma refreshes_simps:
  "refreshes [] = 0"
  "refreshes (CallPost u c b # tr) = refreshes tr"
  "refreshes (CallGet u # tr) = refreshes tr"
  "refreshes (CallDecode # tr) = refreshes tr"
  "refreshes (CallTokenRefresh # tr) = Suc (refreshes tr)"
  "refreshes (CallToken # tr) = refreshes tr"
  "refreshes (CallEncode # tr) = refreshes tr"
  by (simp_all add: refreshes_def)

lemma PostJSON_RETRY_after_http:
  "http_calls (calls (PostJSON_RETRY X srv hc incompleteURL requestBytes rty token True rv w []))
     \<le> Suc 0"
  by (simp add: PostJSON_RETRY_after Let_def http_calls_simps
        split: prod.splits sum.splits option.splits)

lemma PostJSON_RETRY_after_refreshes:
  "refreshes (calls (PostJSON_RETRY X srv hc incompleteURL requestBytes rty token True rv w [])) = 0"
  by (simp add: PostJSON_RETRY_after Let_def refreshes_simps
        split: prod.splits sum.splits option.splits)

lemma PostJSON_RETRY_calls_after_retry_3:
  "PostJSON_RETRY X srv hc incompleteURL requestBytes rty token True rv w [a, b, c] =
   (PostJSON_RETRY X srv hc incompleteURL requestBytes rty token True rv w [])
     \<lparr> calls := a # b # c #
         calls (PostJSON_RETRY X srv hc incompleteURL requestBytes rty token True rv w []) \<rparr>"
  using PostJSON_RETRY_calls_after_retry [of X srv hc incompleteURL requestBytes rty token rv w
      "[a, b, c]"]
  by simp

lemma PostJSON_RETRY_bounded:
  "http_calls (calls (PostJSON_RETRY X srv hc incompleteURL requestBytes rty token False rv w []))
     \<le> 2 \<and>
   refreshes (calls (PostJSON_RETRY X srv hc incompleteURL requestBytes rty token False rv w []))
     \<le> 1"
  by (simp add: PostJSON_RETRY_first PostJSON_RETRY_calls_after_retry_3 Let_def
        http_calls_simps refreshes_simps PostJSON_RETRY_after_http PostJSON_RETRY_after_refreshes
        split: prod.splits sum.splits option.splits)

lemma GetJSON_RETRY_after_http:
  "http_calls (calls (GetJSON_RETRY X srv hc incompleteURL rty token True rv w [])) \<le> Suc 0"
  by (simp add: GetJSON_RETRY_after Let_def http_calls_simps
        split: prod.splits sum.splits option.splits)

lemma GetJSON_RETRY_after_refreshes:
  "refreshes (calls (GetJSON_RETRY X srv hc incompleteURL rty token True rv w [])) = 0"
  by (simp add: GetJSON_RETRY_after Let_def refreshes_simps
        split: prod.splits sum.splits option.splits)

lemma GetJSON_RETRY_calls_after_retry_3:
  "GetJSON_RETRY X srv hc incompleteURL rty token True rv w [a, b, c] =
   (GetJSON_RETRY X srv hc incompleteURL rty token True rv w [])
     \<lparr> calls := a # b # c #
         calls (GetJSON_RETRY X srv hc incompleteURL rty token True rv w []) \<rparr>"
  using GetJSON_RETRY_calls_after_retry [of X srv hc incompleteURL rty token rv w "[a, b, c]"]
  by simp

lemma GetJSON_RETRY_bounded:
  "http_calls (calls (GetJSON_RETRY X srv hc incompleteURL rty token False rv w [])) \<le> 2 \<and>
   refreshes (calls (GetJSON_RETRY X srv hc incompleteURL rty token False rv w [])) \<le> 1"
  by (simp add: GetJSON_RETRY_first GetJSON_RETRY_calls_after_retry_3 Let_def
        http_calls_simps refreshes_simps GetJSON_RETRY_after_http GetJSON_RETRY_after_refreshes
        split: prod.splits sum.splits option.splits)

lemma PostJSON_bounded:
  "http_calls (calls (PostJSON X srv hc incompleteURL request rty rv w)) \<le> 2 \<and>
   refreshes (calls (PostJSON X srv hc incompleteURL request rty rv w)) \<le> 1"
proof (cases "Encode X request")
  case (Inl encode_error)
  then show ?thesis
    by (simp add: PostJSON_def http_calls_def refreshes_def)
next
  case (Inr requestBytes)
  obtain r wt where t: "Token srv w = (r, wt)"
    by (cases "Token srv w")
  show ?thesis
  proof (cases r)
    case (Inl fetch_error)
    with Inr t show ?thesis
      by (simp add: PostJSON_def http_calls_def refreshes_def)
  next
    case tok: (Inr token)
    have "calls (PostJSON X srv hc incompleteURL request rty rv w) =
            [CallEncode, CallToken] @
            calls (PostJSON_RETRY X srv hc incompleteURL requestBytes rty token False rv wt [])"
      using Inr t tok
        PostJSON_RETRY_calls_first [of X srv hc incompleteURL requestBytes rty token rv wt
          "[CallEncode, CallToken]"]
      by (simp add: PostJSON_def)
    with PostJSON_RETRY_bounded [of X srv hc incompleteURL requestBytes rty token rv wt]
    show ?thesis
      by (simp add: http_calls_simps refreshes_simps)
  qed
qed

lemma GetJSON_bounded:
  "http_calls (calls (GetJSON X srv hc incompleteURL rty rv w)) \<le> 2 \<and>
   refreshes (calls (GetJSON X srv hc incompleteURL rty rv w)) \<le> 1"
proof -
  obtain r wt where t: "Token srv w = (r, wt)"
    by (cases "Token srv w")
  show ?thesis
  proof (cases r)
    case (Inl fetch_error)
    with t show ?thesis
      by (simp add: GetJSON_def http_calls_def refreshes_def)
  next
    case tok: (Inr token)
    have "calls (GetJSON X srv hc incompleteURL rty rv w) =
            [CallToken] @ calls (GetJSON_RETRY X srv hc incompleteURL rty token False rv wt [])"
      using t tok GetJSON_RETRY_calls_first [of X srv hc incompleteURL rty token rv wt "[CallToken]"]
      by (simp add: GetJSON_def)
    with GetJSON_RETRY_bounded [of X srv hc incompleteURL rty token rv wt]
    show ?thesis
      by (simp add: http_calls_simps refreshes_simps)
  qed
qed

section \<open>The claims\<close>

text \<open>The definitions of the concrete environment, for runs on concrete inputs.\<close>

lemmas demo_defs = demo_externals_def demo_server_def down_server_def scripted_def answer_def
  ok200_def ErrCode_of_def ErrMsg_of_def ErrorStructValue_def ErrCodeOK_def

subsection \<open>C5: a first response with code 0\<close>

text \<open>
  C5. When the first response decodes with status code 0, \<^verbatim>\<open>PostJSON\<close> and \<^verbatim>\<open>GetJSON\<close>
  return a nil error, the response variable holds exactly what the decoder produced from
  that body, and one HTTP call was made, with no refresh and no second pass.
\<close>

theorem first_response_ok:
  "(Encode X request = Inr requestBytes \<and> Token srv w = (Inr token, wt) \<and>
    Post hc (incompleteURL @ QueryEscape X token) ctype requestBytes wt = (Inr respP, wp) \<and>
    StatusCode respP = 200 \<and> Decode X (Body respP) rty rv = (None, rvp) \<and>
    ErrCode_of rvp = Some 0
    \<longrightarrow> (let out = PostJSON X srv hc incompleteURL request rty rv w
         in err out = Return None \<and> response out = rvp \<and> world out = wp \<and>
            calls out = [CallEncode, CallToken,
                         CallPost (incompleteURL @ QueryEscape X token) ctype requestBytes,
                         CallDecode] \<and>
            http_calls (calls out) = 1 \<and> refreshes (calls out) = 0))
   \<and>
   (Token srv w = (Inr token, wt) \<and>
    Get hc (incompleteURL @ QueryEscape X token) wt = (Inr respG, wg) \<and>
    StatusCode respG = 200 \<and> Decode X (Body respG) rty rv = (None, rvg) \<and>
    ErrCode_of rvg = Some 0
    \<longrightarrow> (let out = GetJSON X srv hc incompleteURL rty rv w
         in err out = Return None \<and> response out = rvg \<and> world out = wg \<and>
            calls out = [CallToken, CallGet (incompleteURL @ QueryEscape X token), CallDecode] \<and>
            http_calls (calls out) = 1 \<and> refreshes (calls out) = 0))"
proof (intro conjI impI; elim conjE)
  assume e: "Encode X request = Inr requestBytes" and t: "Token srv w = (Inr token, wt)"
    and p: "Post hc (incompleteURL @ QueryEscape X token) ctype requestBytes wt = (Inr respP, wp)"
    and s: "StatusCode respP = 200" and d: "Decode X (Body respP) rty rv = (None, rvp)"
    and c: "ErrCode_of rvp = Some 0"
  from c have "ErrCode_of rvp = Some ErrCodeOK"
    by (simp add: ErrCodeOK_def)
  from PostJSON_RETRY_ok [OF p s d this] e t
  show "let out = PostJSON X srv hc incompleteURL request rty rv w
         in err out = Return None \<and> response out = rvp \<and> world out = wp \<and>
            calls out = [CallEncode, CallToken,
                         CallPost (incompleteURL @ QueryEscape X token) ctype requestBytes,
                         CallDecode] \<and>
            http_calls (calls out) = 1 \<and> refreshes (calls out) = 0"
    by (simp add: PostJSON_def http_calls_def refreshes_def)
next
  assume t: "Token srv w = (Inr token, wt)"
    and p: "Get hc (incompleteURL @ QueryEscape X token) wt = (Inr respG, wg)"
    and s: "StatusCode respG = 200" and d: "Decode X (Body respG) rty rv = (None, rvg)"
    and c: "ErrCode_of rvg = Some 0"
  from c have "ErrCode_of rvg = Some ErrCodeOK"
    by (simp add: ErrCodeOK_def)
  from GetJSON_RETRY_ok [OF p s d this] t
  show "let out = GetJSON X srv hc incompleteURL rty rv w
         in err out = Return None \<and> response out = rvg \<and> world out = wg \<and>
            calls out = [CallToken, CallGet (incompleteURL @ QueryEscape X token), CallDecode] \<and>
            http_calls (calls out) = 1 \<and> refreshes (calls out) = 0"
    by (simp add: GetJSON_def http_calls_def refreshes_def)
qed

text \<open>The same on a concrete run: the server answers once, with code 0 and a payload.\<close>

theorem first_response_ok_witness:
  "PostJSON demo_externals demo_server
     (scripted [ok200 (Some [Some (VInt 0), Some (VString ''ok''), Some (VString ''data'')])])
     ''/get?t='' ''{}'' (TStruct [TInt, TString, TString]) (VStruct [VInt 7, VString ''x'', VString ''y'']) 0
   = \<lparr> err = Return None, response = VStruct [VInt 0, VString ''ok'', VString ''data''], world = 1,
       calls = [CallEncode, CallToken, CallPost ''/get?t=T1'' ctype ''{}'', CallDecode] \<rparr>
   \<and>
   GetJSON demo_externals demo_server
     (scripted [ok200 (Some [Some (VInt 0), Some (VString ''ok''), Some (VString ''data'')])])
     ''/get?t='' (TStruct [TInt, TString, TString]) (VStruct [VInt 7, VString ''x'', VString ''y'']) 0
   = \<lparr> err = Return None, response = VStruct [VInt 0, VString ''ok'', VString ''data''], world = 1,
       calls = [CallToken, CallGet ''/get?t=T1'', CallDecode] \<rparr>"
  using first_response_ok [where X = demo_externals and srv = demo_server
      and hc = "scripted [ok200 (Some [Some (VInt 0), Some (VString ''ok''), Some (VString ''data'')])]"
      and incompleteURL = "''/get?t=''" and request = "''{}''" and requestBytes = "''{}''"
      and rty = "TStruct [TInt, TString, TString]"
      and rv = "VStruct [VInt 7, VString ''x'', VString ''y'']" and w = 0 and wt = 0 and wp = 1 and wg = 1
      and token = "''T1''"
      and respP = "ok200 (Some [Some (VInt 0), Some (VString ''ok''), Some (VString ''data'')])"
      and respG = "ok200 (Some [Some (VInt 0), Some (VString ''ok''), Some (VString ''data'')])"
      and rvp = "VStruct [VInt 0, VString ''ok'', VString ''data'']"
      and rvg = "VStruct [VInt 0, VString ''ok'', VString ''data'']"]
  by (simp add: demo_defs Let_def outcome.equality)

subsection \<open>C6: the token fetch fails\<close>

text \<open>
  C6. When \<^verbatim>\<open>clt.Token()\<close> returns an error, \<^verbatim>\<open>PostJSON\<close> (whose request was encoded
  before) and \<^verbatim>\<open>GetJSON\<close> return that very error at once: no HTTP call, no refresh, no
  second fetch, the response variable untouched.
\<close>

theorem token_fetch_failure:
  "(Encode X request = Inr requestBytes \<and> Token srv w = (Inl e, wt)
    \<longrightarrow> (let out = PostJSON X srv hc incompleteURL request rty rv w
         in err out = Return (Some e) \<and> response out = rv \<and> world out = wt \<and>
            calls out = [CallEncode, CallToken] \<and> http_calls (calls out) = 0))
   \<and>
   (Token srv w = (Inl e, wt)
    \<longrightarrow> (let out = GetJSON X srv hc incompleteURL rty rv w
         in err out = Return (Some e) \<and> response out = rv \<and> world out = wt \<and>
            calls out = [CallToken] \<and> http_calls (calls out) = 0))"
  by (simp add: PostJSON_def GetJSON_def http_calls_def)

text \<open>A run against a token server that is down; the HTTP server is never reached.\<close>

theorem token_fetch_failure_witness:
  "PostJSON demo_externals down_server (scripted [ok200 (Some [Some (VInt 0), Some (VString ''ok'')])])
     ''/get?t='' ''{}'' (TStruct [TInt, TString]) (VStruct [VInt 7, VString ''x'']) 0
   = \<lparr> err = Return (Some (Foreign ''token server down'')), response = VStruct [VInt 7, VString ''x''],
       world = 0, calls = [CallEncode, CallToken] \<rparr>
   \<and>
   GetJSON demo_externals down_server (scripted [ok200 (Some [Some (VInt 0), Some (VString ''ok'')])])
     ''/get?t='' (TStruct [TInt, TString]) (VStruct [VInt 7, VString ''x'']) 0
   = \<lparr> err = Return (Some (Foreign ''token server down'')), response = VStruct [VInt 7, VString ''x''],
       world = 0, calls = [CallToken] \<rparr>"
  using token_fetch_failure [where X = demo_externals and srv = down_server
      and hc = "scripted [ok200 (Some [Some (VInt 0), Some (VString ''ok'')])]"
      and incompleteURL = "''/get?t=''" and request = "''{}''" and requestBytes = "''{}''"
      and rty = "TStruct [TInt, TString]" and rv = "VStruct [VInt 7, VString ''x'']"
      and w = 0 and wt = 0 and e = "Foreign ''token server down''"]
  by (simp add: demo_defs Let_def outcome.equality)

subsection \<open>C7: an HTTP status other than 200\<close>

text \<open>
  C7. In any pass of the loop, the first or the one after the refresh, an answer whose
  status code is not 200 ends the call with the error
  \<^verbatim>\<open>fmt.Errorf("http.Status: %s", httpResp.Status)\<close>, which carries the status line. The
  pass made its HTTP call and nothing after it: the body is not decoded (the response
  variable is as it was), the token is not refreshed, the request is not sent again.
\<close>

theorem http_status_not_200:
  "(Post hc (incompleteURL @ QueryEscape X token) ctype requestBytes w = (Inr resp, wp) \<and>
    StatusCode resp \<noteq> 200
    \<longrightarrow> (let out = PostJSON_RETRY X srv hc incompleteURL requestBytes rty token hasRetried rv w tr
         in err out = Return (Some (Errorf (''http.Status: '' @ Status resp))) \<and>
            response out = rv \<and> world out = wp \<and>
            calls out = tr @ [CallPost (incompleteURL @ QueryEscape X token) ctype requestBytes]))
   \<and>
   (Get hc (incompleteURL @ QueryEscape X token) w = (Inr resp', wg) \<and>
    StatusCode resp' \<noteq> 200
    \<longrightarrow> (let out = GetJSON_RETRY X srv hc incompleteURL rty token hasRetried rv w tr
         in err out = Return (Some (Errorf (''http.Status: '' @ Status resp'))) \<and>
            response out = rv \<and> world out = wg \<and>
            calls out = tr @ [CallGet (incompleteURL @ QueryEscape X token)]))"
  by (simp add: PostJSON_RETRY_status GetJSON_RETRY_status)

text \<open>
  A server that answers 500: a whole \<^verbatim>\<open>PostJSON\<close> call, which stops in its first pass,
  and a pass of \<^verbatim>\<open>GetJSON\<close> after a refresh.
\<close>

theorem http_status_not_200_witness:
  "PostJSON demo_externals demo_server
     (scripted [\<lparr> StatusCode = 500, Status = ''500 Internal Server Error'',
                  Body = Some [Some (VInt 0), Some (VString ''ok'')] \<rparr>])
     ''/get?t='' ''{}'' (TStruct [TInt, TString]) (VStruct [VInt 7, VString ''x'']) 0
   = \<lparr> err = Return (Some (Errorf ''http.Status: 500 Internal Server Error'')),
       response = VStruct [VInt 7, VString ''x''], world = 1,
       calls = [CallEncode, CallToken, CallPost ''/get?t=T1'' ctype ''{}''] \<rparr>
   \<and>
   GetJSON_RETRY demo_externals demo_server
     (scripted [\<lparr> StatusCode = 500, Status = ''500 Internal Server Error'',
                  Body = Some [Some (VInt 0), Some (VString ''ok'')] \<rparr>])
     ''/get?t='' (TStruct [TInt, TString]) ''T2'' True (VStruct [VInt 0, VString []]) 0 [CallTokenRefresh]
   = \<lparr> err = Return (Some (Errorf ''http.Status: 500 Internal Server Error'')),
       response = VStruct [VInt 0, VString []], world = 1,
       calls = [CallTokenRefresh, CallGet ''/get?t=T2''] \<rparr>"
  using http_status_not_200 [where X = demo_externals and srv = demo_server
      and hc = "scripted [\<lparr> StatusCode = 500, Status = ''500 Internal Server Error'',
                  Body = Some [Some (VInt 0), Some (VString ''ok'')] \<rparr>]"
      and incompleteURL = "''/get?t=''" and requestBytes = "''{}''" and token = "''T1''"
      and rty = "TStruct [TInt, TString]" and rv = "VStruct [VInt 7, VString ''x'']"
      and hasRetried = False and tr = "[CallEncode, CallToken]"
      and w = 0 and wp = 1 and wg = 1
      and resp = "\<lparr> StatusCode = 500, Status = ''500 Internal Server Error'',
                  Body = Some [Some (VInt 0), Some (VString ''ok'')] \<rparr>"
      and resp' = "\<lparr> StatusCode = 500, Status = ''500 Internal Server Error'',
                  Body = Some [Some (VInt 0), Some (VString ''ok'')] \<rparr>"]
    http_status_not_200 [where X = demo_externals and srv = demo_server
      and hc = "scripted [\<lparr> StatusCode = 500, Status = ''500 Internal Server Error'',
                  Body = Some [Some (VInt 0), Some (VString ''ok'')] \<rparr>]"
      and incompleteURL = "''/get?t=''" and requestBytes = "''{}''" and token = "''T2''"
      and rty = "TStruct [TInt, TString]" and rv = "VStruct [VInt 0, VString []]"
      and hasRetried = True and tr = "[CallTokenRefresh]"
      and w = 0 and wp = 1 and wg = 1
      and resp = "\<lparr> StatusCode = 500, Status = ''500 Internal Server Error'',
                  Body = Some [Some (VInt 0), Some (VString ''ok'')] \<rparr>"
      and resp' = "\<lparr> StatusCode = 500, Status = ''500 Internal Server Error'',
                  Body = Some [Some (VInt 0), Some (VString ''ok'')] \<rparr>"]
  by (simp add: PostJSON_def demo_defs Let_def outcome.equality)

subsection \<open>C9: NewClient\<close>

text \<open>
  C9. \<^verbatim>\<open>NewClient\<close> panics on an empty SuiteId (checked first) and on a nil
  AccessTokenServer. On every other input it returns a client with the SuiteId and token
  server it was given and with the HTTP client it was given, or the default client when
  that was nil; so the HTTP client of a constructed client is never nil.
\<close>

theorem NewClient_panics_or_builds:
  "(suiteId = [] \<longrightarrow> NewClient dflt suiteId srv hc = Inl ''empty SuiteId'') \<and>
   (suiteId \<noteq> [] \<and> srv = None \<longrightarrow> NewClient dflt suiteId srv hc = Inl ''AccessTokenServer == nil'') \<and>
   (suiteId \<noteq> [] \<and> srv \<noteq> None \<longrightarrow>
      NewClient dflt suiteId srv hc =
        Inr \<lparr> SuiteId = suiteId, AccessTokenServer = srv,
              HttpClient = (case hc of None \<Rightarrow> Some dflt | Some h \<Rightarrow> Some h) \<rparr>) \<and>
   (\<forall>clt. NewClient dflt suiteId srv hc = Inr clt \<longrightarrow> HttpClient clt \<noteq> None)"
  by (auto simp: NewClient_def split: option.splits)

text \<open>The four kinds of input, each run once.\<close>

theorem NewClient_panics_or_builds_witness:
  "NewClient (0::nat) [] (Some True) (Some 5) = Inl ''empty SuiteId'' \<and>
   NewClient (0::nat) ''wx1'' (None :: bool option) (Some 5) = Inl ''AccessTokenServer == nil'' \<and>
   NewClient (0::nat) ''wx1'' (Some True) None =
     Inr \<lparr> SuiteId = ''wx1'', AccessTokenServer = Some True, HttpClient = Some 0 \<rparr> \<and>
   NewClient (0::nat) ''wx1'' (Some True) (Some 5) =
     Inr \<lparr> SuiteId = ''wx1'', AccessTokenServer = Some True, HttpClient = Some 5 \<rparr> \<and>
   HttpClient \<lparr> SuiteId = ''wx1'', AccessTokenServer = Some True, HttpClient = Some (0::nat) \<rparr> \<noteq> None"
  using NewClient_panics_or_builds [of "[]" "0::nat" "Some True" "Some 5"]
    NewClient_panics_or_builds [of "''wx1''" "0::nat" "None :: bool option" "Some 5"]
    NewClient_panics_or_builds [of "''wx1''" "0::nat" "Some True" "None"]
    NewClient_panics_or_builds [of "''wx1''" "0::nat" "Some True" "Some 5"]
  by simp

subsection \<open>C1: an error code that is neither 0 nor the expiry code\<close>

text \<open>
  C1 as written (the call returns an error value that carries the code) fails:
  the \<^verbatim>\<open>default\<close> case of the switch is a bare \<^verbatim>\<open>return\<close>, and the named result \<^verbatim>\<open>err\<close>
  is nil there, the decoder having succeeded. A server that answers code 40003:
\<close>

theorem api_error_returns_nil:
  "err (PostJSON demo_externals demo_server
         (scripted [ok200 (Some [Some (VInt 40003), Some (VString ''invalid userid'')])])
         ''/get?t='' ''{}'' (TStruct [TInt, TString]) (VStruct [VInt 0, VString []]) 0)
     = Return None \<and>
   ErrCode_of (response (PostJSON demo_externals demo_server
         (scripted [ok200 (Some [Some (VInt 40003), Some (VString ''invalid userid'')])])
         ''/get?t='' ''{}'' (TStruct [TInt, TString]) (VStruct [VInt 0, VString []]) 0))
     = Some 40003 \<and>
   (40003 :: int) \<noteq> 0 \<and> 40003 \<noteq> ErrCodeSuiteAccessTokenExpired demo_externals"
  by (simp add: PostJSON_def demo_defs PostJSON_RETRY.simps Let_def)

text \<open>
  C1, amended. When the first response decodes with a status code that is neither 0 nor
  the expiry code, \<^verbatim>\<open>PostJSON\<close> and \<^verbatim>\<open>GetJSON\<close> make exactly one HTTP call and no
  refresh, and return a nil error; the code and its message reach the caller in the
  response variable, which holds exactly the decoded value.
\<close>

theorem api_error_left_in_response:
  "(Encode X request = Inr requestBytes \<and> Token srv w = (Inr token, wt) \<and>
    Post hc (incompleteURL @ QueryEscape X token) ctype requestBytes wt = (Inr respP, wp) \<and>
    StatusCode respP = 200 \<and> Decode X (Body respP) rty rv = (None, rvp) \<and>
    ErrCode_of rvp = Some code \<and> code \<noteq> 0 \<and> code \<noteq> ErrCodeSuiteAccessTokenExpired X
    \<longrightarrow> (let out = PostJSON X srv hc incompleteURL request rty rv w
         in err out = Return None \<and> response out = rvp \<and>
            ErrCode_of (response out) = Some code \<and> world out = wp \<and>
            calls out = [CallEncode, CallToken,
                         CallPost (incompleteURL @ QueryEscape X token) ctype requestBytes,
                         CallDecode] \<and>
            http_calls (calls out) = 1 \<and> refreshes (calls out) = 0))
   \<and>
   (Token srv w = (Inr token, wt) \<and>
    Get hc (incompleteURL @ QueryEscape X token) wt = (Inr respG, wg) \<and>
    StatusCode respG = 200 \<and> Decode X (Body respG) rty rv = (None, rvg) \<and>
    ErrCode_of rvg = Some code \<and> code \<noteq> 0 \<and> code \<noteq> ErrCodeSuiteAccessTokenExpired X
    \<longrightarrow> (let out = GetJSON X srv hc incompleteURL rty rv w
         in err out = Return None \<and> response out = rvg \<and>
            ErrCode_of (response out) = Some code \<and> world out = wg \<and>
            calls out = [CallToken, CallGet (incompleteURL @ QueryEscape X token), CallDecode] \<and>
            http_calls (calls out) = 1 \<and> refreshes (calls out) = 0))"
proof (intro conjI impI; elim conjE)
  assume e: "Encode X request = Inr requestBytes" and t: "Token srv w = (Inr token, wt)"
    and p: "Post hc (incompleteURL @ QueryEscape X token) ctype requestBytes wt = (Inr respP, wp)"
    and s: "StatusCode respP = 200" and d: "Decode X (Body respP) rty rv = (None, rvp)"
    and c: "ErrCode_of rvp = Some code" and n: "code \<noteq> ErrCodeSuiteAccessTokenExpired X"
  from PostJSON_RETRY_other [OF p s d c n] e t c
  show "let out = PostJSON X srv hc incompleteURL request rty rv w
         in err out = Return None \<and> response out = rvp \<and>
            ErrCode_of (response out) = Some code \<and> world out = wp \<and>
            calls out = [CallEncode, CallToken,
                         CallPost (incompleteURL @ QueryEscape X token) ctype requestBytes,
                         CallDecode] \<and>
            http_calls (calls out) = 1 \<and> refreshes (calls out) = 0"
    by (simp add: PostJSON_def http_calls_def refreshes_def)
next
  assume t: "Token srv w = (Inr token, wt)"
    and p: "Get hc (incompleteURL @ QueryEscape X token) wt = (Inr respG, wg)"
    and s: "StatusCode respG = 200" and d: "Decode X (Body respG) rty rv = (None, rvg)"
    and c: "ErrCode_of rvg = Some code" and n: "code \<noteq> ErrCodeSuiteAccessTokenExpired X"
  from GetJSON_RETRY_other [OF p s d c n] t c
  show "let out = GetJSON X srv hc incompleteURL rty rv w
         in err out = Return None \<and> response out = rvg \<and>
            ErrCode_of (response out) = Some code \<and> world out = wg \<and>
            calls out = [CallToken, CallGet (incompleteURL @ QueryEscape X token), CallDecode] \<and>
            http_calls (calls out) = 1 \<and> refreshes (calls out) = 0"
    by (simp add: GetJSON_def http_calls_def refreshes_def)
qed

text \<open>The run of the counterexample, and the same through \<^verbatim>\<open>GetJSON\<close>.\<close>

theorem api_error_left_in_response_witness:
  "PostJSON demo_externals demo_server
     (scripted [ok200 (Some [Some (VInt 40003), Some (VString ''invalid userid'')])])
     ''/get?t='' ''{}'' (TStruct [TInt, TString]) (VStruct [VInt 0, VString []]) 0
   = \<lparr> err = Return None, response = VStruct [VInt 40003, VString ''invalid userid''], world = 1,
       calls = [CallEncode, CallToken, CallPost ''/get?t=T1'' ctype ''{}'', CallDecode] \<rparr>
   \<and>
   GetJSON demo_externals demo_server
     (scripted [ok200 (Some [Some (VInt 40003), Some (VString ''invalid userid'')])])
     ''/get?t='' (TStruct [TInt, TString]) (VStruct [VInt 0, VString []]) 0
   = \<lparr> err = Return None, response = VStruct [VInt 40003, VString ''invalid userid''], world = 1,
       calls = [CallToken, CallGet ''/get?t=T1'', CallDecode] \<rparr>"
  using api_error_left_in_response [where X = demo_externals and srv = demo_server
      and hc = "scripted [ok200 (Some [Some (VInt 40003), Some (VString ''invalid userid'')])]"
      and incompleteURL = "''/get?t=''" and request = "''{}''" and requestBytes = "''{}''"
      and rty = "TStruct [TInt, TString]" and rv = "VStruct [VInt 0, VString []]"
      and w = 0 and wt = 0 and wp = 1 and wg = 1 and token = "''T1''" and code = 40003
      and respP = "ok200 (Some [Some (VInt 40003), Some (VString ''invalid userid'')])"
      and respG = "ok200 (Some [Some (VInt 40003), Some (VString ''invalid userid'')])"
      and rvp = "VStruct [VInt 40003, VString ''invalid userid'']"
      and rvg = "VStruct [VInt 40003, VString ''invalid userid'']"]
  by (simp add: demo_defs Let_def outcome.equality)

subsection \<open>C2: the expiry code on every attempt\<close>

text \<open>
  C2 as written ends with the call returning an error. It returns nil: after the second
  expiry answer \<^verbatim>\<open>hasRetried\<close> is set, the case falls through to \<^verbatim>\<open>default\<close>, and \<^verbatim>\<open>err\<close>
  is nil there. A server that answers the expiry code whatever the token:
\<close>

theorem expiry_twice_returns_nil:
  "err (PostJSON demo_externals demo_server
         (scripted [ok200 (Some [Some (VInt 42001), Some (VString ''expired'')]),
                    ok200 (Some [Some (VInt 42001), Some (VString ''expired again'')]),
                    ok200 (Some [Some (VInt 42001), Some (VString ''expired for ever'')])])
         ''/get?t='' ''{}'' (TStruct [TInt, TString]) (VStruct [VInt 0, VString []]) 0)
     = Return None \<and>
   ErrCode_of (response (PostJSON demo_externals demo_server
         (scripted [ok200 (Some [Some (VInt 42001), Some (VString ''expired'')]),
                    ok200 (Some [Some (VInt 42001), Some (VString ''expired again'')]),
                    ok200 (Some [Some (VInt 42001), Some (VString ''expired for ever'')])])
         ''/get?t='' ''{}'' (TStruct [TInt, TString]) (VStruct [VInt 0, VString []]) 0))
     = Some (ErrCodeSuiteAccessTokenExpired demo_externals)"
  by (simp add: PostJSON_def demo_defs PostJSON_RETRY.simps Let_def)

text \<open>
  C2, amended. When both the first response and the response to the request sent again
  after the refresh decode with the expiry code (in a status struct that has its message
  field), \<^verbatim>\<open>PostJSON\<close> and \<^verbatim>\<open>GetJSON\<close> make exactly two HTTP calls and exactly one call of
  \<^verbatim>\<open>TokenRefresh\<close>, do not enter a third pass, and return a nil error; the response variable
  holds the second response, decoded into the zero value, so the expiry code the caller
  finds there is the one of the second response.
\<close>

theorem expiry_on_both_attempts:
  "(Encode X request = Inr requestBytes \<and> Token srv w = (Inr tokenA, wt) \<and>
    Post hc (incompleteURL @ QueryEscape X tokenA) ctype requestBytes wt = (Inr respA, wa) \<and>
    StatusCode respA = 200 \<and> Decode X (Body respA) rty rv = (None, rva) \<and>
    ErrCode_of rva = Some (ErrCodeSuiteAccessTokenExpired X) \<and> ErrMsg_of rva = Some msgA \<and>
    ErrCodeSuiteAccessTokenExpired X \<noteq> 0 \<and>
    TokenRefresh srv wa = (Inr tokenB, wr) \<and>
    Post hc (incompleteURL @ QueryEscape X tokenB) ctype requestBytes wr = (Inr respB, wb) \<and>
    StatusCode respB = 200 \<and> Decode X (Body respB) rty (zero rty) = (None, rvb) \<and>
    ErrCode_of rvb = Some (ErrCodeSuiteAccessTokenExpired X) \<and> ErrMsg_of rvb = Some msgB
    \<longrightarrow> (let out = PostJSON X srv hc incompleteURL request rty rv w
         in err out = Return None \<and> response out = rvb \<and> world out = wb \<and>
            calls out = [CallEncode, CallToken,
                         CallPost (incompleteURL @ QueryEscape X tokenA) ctype requestBytes,
                         CallDecode, CallTokenRefresh,
                         CallPost (incompleteURL @ QueryEscape X tokenB) ctype requestBytes,
                         CallDecode] \<and>
            http_calls (calls out) = 2 \<and> refreshes (calls out) = 1))
   \<and>
   (Token srv w = (Inr tokenA, wt) \<and>
    Get hc (incompleteURL @ QueryEscape X tokenA) wt = (Inr respC, wc) \<and>
    StatusCode respC = 200 \<and> Decode X (Body respC) rty rv = (None, rvc) \<and>
    ErrCode_of rvc = Some (ErrCodeSuiteAccessTokenExpired X) \<and> ErrMsg_of rvc = Some msgC \<and>
    ErrCodeSuiteAccessTokenExpired X \<noteq> 0 \<and>
    TokenRefresh srv wc = (Inr tokenD, ws) \<and>
    Get hc (incompleteURL @ QueryEscape X tokenD) ws = (Inr respD, wd) \<and>
    StatusCode respD = 200 \<and> Decode X (Body respD) rty (zero rty) = (None, rvd) \<and>
    ErrCode_of rvd = Some (ErrCodeSuiteAccessTokenExpired X) \<and> ErrMsg_of rvd = Some msgD
    \<longrightarrow> (let out = GetJSON X srv hc incompleteURL rty rv w
         in err out = Return None \<and> response out = rvd \<and> world out = wd \<and>
            calls out = [CallToken, CallGet (incompleteURL @ QueryEscape X tokenA),
                         CallDecode, CallTokenRefresh,
                         CallGet (incompleteURL @ QueryEscape X tokenD), CallDecode] \<and>
            http_calls (calls out) = 2 \<and> refreshes (calls out) = 1))"
proof (intro conjI impI; elim conjE)
  assume e: "Encode X request = Inr requestBytes" and t: "Token srv w = (Inr tokenA, wt)"
    and p: "Post hc (incompleteURL @ QueryEscape X tokenA) ctype requestBytes wt = (Inr respA, wa)"
    and s: "StatusCode respA = 200" and d: "Decode X (Body respA) rty rv = (None, rva)"
    and c: "ErrCode_of rva = Some (ErrCodeSuiteAccessTokenExpired X)"
    and m: "ErrMsg_of rva = Some msgA" and n: "ErrCodeSuiteAccessTokenExpired X \<noteq> 0"
    and r: "TokenRefresh srv wa = (Inr tokenB, wr)"
    and p': "Post hc (incompleteURL @ QueryEscape X tokenB) ctype requestBytes wr = (Inr respB, wb)"
    and s': "StatusCode respB = 200" and d': "Decode X (Body respB) rty (zero rty) = (None, rvb)"
    and c': "ErrCode_of rvb = Some (ErrCodeSuiteAccessTokenExpired X)"
    and m': "ErrMsg_of rvb = Some msgB"
  from n have n': "ErrCodeSuiteAccessTokenExpired X \<noteq> ErrCodeOK"
    by (simp add: ErrCodeOK_def)
  have "PostJSON_RETRY X srv hc incompleteURL requestBytes rty tokenA False rv wt
          [CallEncode, CallToken] =
        \<lparr> err = Return None, response = rvb, world = wb,
          calls = [CallEncode, CallToken,
                   CallPost (incompleteURL @ QueryEscape X tokenA) ctype requestBytes,
                   CallDecode, CallTokenRefresh,
                   CallPost (incompleteURL @ QueryEscape X tokenB) ctype requestBytes,
                   CallDecode] \<rparr>"
    by (simp add: PostJSON_RETRY_goto [OF p s d c n' m r]
          PostJSON_RETRY_exhausted [OF p' s' d' c' m'])
  with e t
  show "let out = PostJSON X srv hc incompleteURL request rty rv w
         in err out = Return None \<and> response out = rvb \<and> world out = wb \<and>
            calls out = [CallEncode, CallToken,
                         CallPost (incompleteURL @ QueryEscape X tokenA) ctype requestBytes,
                         CallDecode, CallTokenRefresh,
                         CallPost (incompleteURL @ QueryEscape X tokenB) ctype requestBytes,
                         CallDecode] \<and>
            http_calls (calls out) = 2 \<and> refreshes (calls out) = 1"
    by (simp add: PostJSON_def http_calls_def refreshes_def)
next
  assume t: "Token srv w = (Inr tokenA, wt)"
    and p: "Get hc (incompleteURL @ QueryEscape X tokenA) wt = (Inr respC, wc)"
    and s: "StatusCode respC = 200" and d: "Decode X (Body respC) rty rv = (None, rvc)"
    and c: "ErrCode_of rvc = Some (ErrCodeSuiteAccessTokenExpired X)"
    and m: "ErrMsg_of rvc = Some msgC" and n: "ErrCodeSuiteAccessTokenExpired X \<noteq> 0"
    and r: "TokenRefresh srv wc = (Inr tokenD, ws)"
    and p': "Get hc (incompleteURL @ QueryEscape X tokenD) ws = (Inr respD, wd)"
    and s': "StatusCode respD = 200" and d': "Decode X (Body respD) rty (zero rty) = (None, rvd)"
    and c': "ErrCode_of rvd = Some (ErrCodeSuiteAccessTokenExpired X)"
    and m': "ErrMsg_of rvd = Some msgD"
  from n have n': "ErrCodeSuiteAccessTokenExpired X \<noteq> ErrCodeOK"
    by (simp add: ErrCodeOK_def)
  have "GetJSON_RETRY X srv hc incompleteURL rty tokenA False rv wt [CallToken] =
        \<lparr> err = Return None, response = rvd, world = wd,
          calls = [CallToken, CallGet (incompleteURL @ QueryEscape X tokenA),
                   CallDecode, CallTokenRefresh,
                   CallGet (incompleteURL @ QueryEscape X tokenD), CallDecode] \<rparr>"
    by (simp add: GetJSON_RETRY_goto [OF p s d c n' m r]
          GetJSON_RETRY_exhausted [OF p' s' d' c' m'])
  with t
  show "let out = GetJSON X srv hc incompleteURL rty rv w
         in err out = Return None \<and> response out = rvd \<and> world out = wd \<and>
            calls out = [CallToken, CallGet (incompleteURL @ QueryEscape X tokenA),
                         CallDecode, CallTokenRefresh,
                         CallGet (incompleteURL @ QueryEscape X tokenD), CallDecode] \<and>
            http_calls (calls out) = 2 \<and> refreshes (calls out) = 1"
    by (simp add: GetJSON_def http_calls_def refreshes_def)
qed

text \<open>
  The run of the counterexample, and the same through \<^verbatim>\<open>GetJSON\<close>: the script holds a
  third answer, which is never asked for (the world ends at 2).
\<close>

theorem expiry_on_both_attempts_witness:
  "PostJSON demo_externals demo_server
         (scripted [ok200 (Some [Some (VInt 42001), Some (VString ''expired'')]),
                    ok200 (Some [Some (VInt 42001), Some (VString ''expired again'')]),
                    ok200 (Some [Some (VInt 42001), Some (VString ''expired for ever'')])])
         ''/get?t='' ''{}'' (TStruct [TInt, TString]) (VStruct [VInt 0, VString []]) 0
   = \<lparr> err = Return None, response = VStruct [VInt 42001, VString ''expired again''], world = 2,
       calls = [CallEncode, CallToken, CallPost ''/get?t=T1'' ctype ''{}'', CallDecode,
                CallTokenRefresh, CallPost ''/get?t=T2'' ctype ''{}'', CallDecode] \<rparr>
   \<and>
   GetJSON demo_externals demo_server
         (scripted [ok200 (Some [Some (VInt 42001), Some (VString ''expired'')]),
                    ok200 (Some [Some (VInt 42001), Some (VString ''expired again'')]),
                    ok200 (Some [Some (VInt 42001), Some (VString ''expired for ever'')])])
         ''/get?t='' (TStruct [TInt, TString]) (VStruct [VInt 0, VString []]) 0
   = \<lparr> err = Return None, response = VStruct [VInt 42001, VString ''expired again''], world = 2,
       calls = [CallToken, CallGet ''/get?t=T1'', CallDecode,
                CallTokenRefresh, CallGet ''/get?t=T2'', CallDecode] \<rparr>"
  using expiry_on_both_attempts [where X = demo_externals and srv = demo_server
      and hc = "scripted [ok200 (Some [Some (VInt 42001), Some (VString ''expired'')]),
                    ok200 (Some [Some (VInt 42001), Some (VString ''expired again'')]),
                    ok200 (Some [Some (VInt 42001), Some (VString ''expired for ever'')])]"
      and incompleteURL = "''/get?t=''" and request = "''{}''" and requestBytes = "''{}''"
      and rty = "TStruct [TInt, TString]" and rv = "VStruct [VInt 0, VString []]"
      and w = 0 and wt = 0 and wa = 1 and wr = 1 and wb = 2 and wc = 1 and ws = 1 and wd = 2
      and tokenA = "''T1''" and tokenB = "''T2''" and tokenD = "''T2''"
      and respA = "ok200 (Some [Some (VInt 42001), Some (VString ''expired'')])"
      and respB = "ok200 (Some [Some (VInt 42001), Some (VString ''expired again'')])"
      and respC = "ok200 (Some [Some (VInt 42001), Some (VString ''expired'')])"
      and respD = "ok200 (Some [Some (VInt 42001), Some (VString ''expired again'')])"
      and rva = "VStruct [VInt 42001, VString ''expired'']"
      and rvb = "VStruct [VInt 42001, VString ''expired again'']"
      and rvc = "VStruct [VInt 42001, VString ''expired'']"
      and rvd = "VStruct [VInt 42001, VString ''expired again'']"
      and msgA = "VString ''expired''" and msgB = "VString ''expired again''"
      and msgC = "VString ''expired''" and msgD = "VString ''expired again''"]
  by (simp add: demo_defs Let_def outcome.equality)

subsection \<open>C3: the response variable is reset before the second decode\<close>

text \<open>
  C3. When the first response decodes with the expiry code, whatever else the decoder
  wrote into the response variable, and the response to the request sent again after the
  refresh decodes with code 0, the response variable handed back holds what the decoder
  makes of the second body starting from the zero value of the variable's type
  (\<^verbatim>\<open>reflect.New(t).Elem()\<close>, every field zero): nothing of the first decode is left.
\<close>

theorem reset_before_second_decode:
  "(Encode X request = Inr requestBytes \<and> Token srv w = (Inr tokenA, wt) \<and>
    Post hc (incompleteURL @ QueryEscape X tokenA) ctype requestBytes wt = (Inr respA, wa) \<and>
    StatusCode respA = 200 \<and> Decode X (Body respA) rty rv = (None, rva) \<and>
    ErrCode_of rva = Some (ErrCodeSuiteAccessTokenExpired X) \<and> ErrMsg_of rva = Some msgA \<and>
    ErrCodeSuiteAccessTokenExpired X \<noteq> 0 \<and>
    TokenRefresh srv wa = (Inr tokenB, wr) \<and>
    Post hc (incompleteURL @ QueryEscape X tokenB) ctype requestBytes wr = (Inr respB, wb) \<and>
    StatusCode respB = 200 \<and> fst (Decode X (Body respB) rty (zero rty)) = None \<and>
    ErrCode_of (snd (Decode X (Body respB) rty (zero rty))) = Some 0
    \<longrightarrow> (let out = PostJSON X srv hc incompleteURL request rty rv w
         in err out = Return None \<and>
            response out = snd (Decode X (Body respB) rty (zero rty)) \<and>
            http_calls (calls out) = 2 \<and> refreshes (calls out) = 1))
   \<and>
   (Token srv w = (Inr tokenA, wt) \<and>
    Get hc (incompleteURL @ QueryEscape X tokenA) wt = (Inr respC, wc) \<and>
    StatusCode respC = 200 \<and> Decode X (Body respC) rty rv = (None, rvc) \<and>
    ErrCode_of rvc = Some (ErrCodeSuiteAccessTokenExpired X) \<and> ErrMsg_of rvc = Some msgC \<and>
    ErrCodeSuiteAccessTokenExpired X \<noteq> 0 \<and>
    TokenRefresh srv wc = (Inr tokenD, ws) \<and>
    Get hc (incompleteURL @ QueryEscape X tokenD) ws = (Inr respD, wd) \<and>
    StatusCode respD = 200 \<and> fst (Decode X (Body respD) rty (zero rty)) = None \<and>
    ErrCode_of (snd (Decode X (Body respD) rty (zero rty))) = Some 0
    \<longrightarrow> (let out = GetJSON X srv hc incompleteURL rty rv w
         in err out = Return None \<and>
            response out = snd (Decode X (Body respD) rty (zero rty)) \<and>
            http_calls (calls out) = 2 \<and> refreshes (calls out) = 1))"
proof (intro conjI impI; elim conjE)
  assume e: "Encode X request = Inr requestBytes" and t: "Token srv w = (Inr tokenA, wt)"
    and p: "Post hc (incompleteURL @ QueryEscape X tokenA) ctype requestBytes wt = (Inr respA, wa)"
    and s: "StatusCode respA = 200" and d: "Decode X (Body respA) rty rv = (None, rva)"
    and c: "ErrCode_of rva = Some (ErrCodeSuiteAccessTokenExpired X)"
    and m: "ErrMsg_of rva = Some msgA" and n: "ErrCodeSuiteAccessTokenExpired X \<noteq> 0"
    and r: "TokenRefresh srv wa = (Inr tokenB, wr)"
    and p': "Post hc (incompleteURL @ QueryEscape X tokenB) ctype requestBytes wr = (Inr respB, wb)"
    and s': "StatusCode respB = 200" and f: "fst (Decode X (Body respB) rty (zero rty)) = None"
    and c': "ErrCode_of (snd (Decode X (Body respB) rty (zero rty))) = Some 0"
  from n have n': "ErrCodeSuiteAccessTokenExpired X \<noteq> ErrCodeOK"
    by (simp add: ErrCodeOK_def)
  from f have d': "Decode X (Body respB) rty (zero rty) =
                    (None, snd (Decode X (Body respB) rty (zero rty)))"
    by (simp add: prod_eq_iff)
  from c' have c'': "ErrCode_of (snd (Decode X (Body respB) rty (zero rty))) = Some ErrCodeOK"
    by (simp add: ErrCodeOK_def)
  have "PostJSON_RETRY X srv hc incompleteURL requestBytes rty tokenA False rv wt
          [CallEncode, CallToken] =
        \<lparr> err = Return None, response = snd (Decode X (Body respB) rty (zero rty)), world = wb,
          calls = [CallEncode, CallToken,
                   CallPost (incompleteURL @ QueryEscape X tokenA) ctype requestBytes,
                   CallDecode, CallTokenRefresh,
                   CallPost (incompleteURL @ QueryEscape X tokenB) ctype requestBytes,
                   CallDecode] \<rparr>"
    by (simp add: PostJSON_RETRY_goto [OF p s d c n' m r] PostJSON_RETRY_ok [OF p' s' d' c''])
  with e t
  show "let out = PostJSON X srv hc incompleteURL request rty rv w
         in err out = Return None \<and>
            response out = snd (Decode X (Body respB) rty (zero rty)) \<and>
            http_calls (calls out) = 2 \<and> refreshes (calls out) = 1"
    by (simp add: PostJSON_def http_calls_def refreshes_def)
next
  assume t: "Token srv w = (Inr tokenA, wt)"
    and p: "Get hc (incompleteURL @ QueryEscape X tokenA) wt = (Inr respC, wc)"
    and s: "StatusCode respC = 200" and d: "Decode X (Body respC) rty rv = (None, rvc)"
    and c: "ErrCode_of rvc = Some (ErrCodeSuiteAccessTokenExpired X)"
    and m: "ErrMsg_of rvc = Some msgC" and n: "ErrCodeSuiteAccessTokenExpired X \<noteq> 0"
    and r: "TokenRefresh srv wc = (Inr tokenD, ws)"
    and p': "Get hc (incompleteURL @ QueryEscape X tokenD) ws = (Inr respD, wd)"
    and s': "StatusCode respD = 200" and f: "fst (Decode X (Body respD) rty (zero rty)) = None"
    and c': "ErrCode_of (snd (Decode X (Body respD) rty (zero rty))) = Some 0"
  from n have n': "ErrCodeSuiteAccessTokenExpired X \<noteq> ErrCodeOK"
    by (simp add: ErrCodeOK_def)
  from f have d': "Decode X (Body respD) rty (zero rty) =
                    (None, snd (Decode X (Body respD) rty (zero rty)))"
    by (simp add: prod_eq_iff)
  from c' have c'': "ErrCode_of (snd (Decode X (Body respD) rty (zero rty))) = Some ErrCodeOK"
    by (simp add: ErrCodeOK_def)
  have "GetJSON_RETRY X srv hc incompleteURL rty tokenA False rv wt [CallToken] =
        \<lparr> err = Return None, response = snd (Decode X (Body respD) rty (zero rty)), world = wd,
          calls = [CallToken, CallGet (incompleteURL @ QueryEscape X tokenA),
                   CallDecode, CallTokenRefresh,
                   CallGet (incompleteURL @ QueryEscape X tokenD), CallDecode] \<rparr>"
    by (simp add: GetJSON_RETRY_goto [OF p s d c n' m r] GetJSON_RETRY_ok [OF p' s' d' c''])
  with t
  show "let out = GetJSON X srv hc incompleteURL rty rv w
         in err out = Return None \<and>
            response out = snd (Decode X (Body respD) rty (zero rty)) \<and>
            http_calls (calls out) = 2 \<and> refreshes (calls out) = 1"
    by (simp add: GetJSON_def http_calls_def refreshes_def)
qed

text \<open>
  A run with a decoder that leaves alone the fields a body does not mention. The first
  answer carries the expiry code and writes \<open>stale\<close> into the payload field; the second is
  a success that does not mention the payload. The payload handed back is the empty
  string of the reset, not \<open>stale\<close>.
\<close>

theorem reset_before_second_decode_witness:
  "response (PostJSON demo_externals demo_server
         (scripted [ok200 (Some [Some (VStruct [VInt 42001, VString ''expired'']), Some (VString ''stale'')]),
                    ok200 (Some [Some (VStruct [VInt 0, VString ''ok'']), None])])
         ''/get?t='' ''{}'' (TStruct [TStruct [TInt, TString], TString])
         (VStruct [VStruct [VInt 0, VString []], VString ''before'']) 0)
   = VStruct [VStruct [VInt 0, VString ''ok''], VString []]
   \<and>
   response (GetJSON demo_externals demo_server
         (scripted [ok200 (Some [Some (VStruct [VInt 42001, VString ''expired'']), Some (VString ''stale'')]),
                    ok200 (Some [Some (VStruct [VInt 0, VString ''ok'']), None])])
         ''/get?t='' (TStruct [TStruct [TInt, TString], TString])
         (VStruct [VStruct [VInt 0, VString []], VString ''before'']) 0)
   = VStruct [VStruct [VInt 0, VString ''ok''], VString []]"
  using reset_before_second_decode [where X = demo_externals and srv = demo_server
      and hc = "scripted [ok200 (Some [Some (VStruct [VInt 42001, VString ''expired'']), Some (VString ''stale'')]),
                    ok200 (Some [Some (VStruct [VInt 0, VString ''ok'']), None])]"
      and incompleteURL = "''/get?t=''" and request = "''{}''" and requestBytes = "''{}''"
      and rty = "TStruct [TStruct [TInt, TString], TString]"
      and rv = "VStruct [VStruct [VInt 0, VString []], VString ''before'']"
      and w = 0 and wt = 0 and wa = 1 and wr = 1 and wb = 2 and wc = 1 and ws = 1 and wd = 2
      and tokenA = "''T1''" and tokenB = "''T2''" and tokenD = "''T2''"
      and respA = "ok200 (Some [Some (VStruct [VInt 42001, VString ''expired'']), Some (VString ''stale'')])"
      and respB = "ok200 (Some [Some (VStruct [VInt 0, VString ''ok'']), None])"
      and respC = "ok200 (Some [Some (VStruct [VInt 42001, VString ''expired'']), Some (VString ''stale'')])"
      and respD = "ok200 (Some [Some (VStruct [VInt 0, VString ''ok'']), None])"
      and rva = "VStruct [VStruct [VInt 42001, VString ''expired''], VString ''stale'']"
      and rvc = "VStruct [VStruct [VInt 42001, VString ''expired''], VString ''stale'']"
      and msgA = "VString ''expired''" and msgC = "VString ''expired''"]
  by (simp add: demo_defs Let_def)

subsection \<open>C4: where the status struct is found\<close>

text \<open>
  C4. After a successful decode the status struct is field 0 of the response variable
  when that field is a struct, and the response variable itself otherwise. So the error
  code is read from the right place both for a bare response (code, message, then maybe
  more fields) and for a response whose first field is the status struct, followed by
  payload fields; and when that code is 0, \<^verbatim>\<open>PostJSON\<close> and \<^verbatim>\<open>GetJSON\<close> return nil with
  the whole decoded value, payload included, in the response variable.
\<close>

theorem status_struct_location:
  "(Field rvd 0 = Some f \<longrightarrow> ErrorStructValue rvd = Some (if Kind f = KStruct then f else rvd)) \<and>
   ErrCode_of (VStruct (VInt code # VString msg # rest)) = Some code \<and>
   ErrCode_of (VStruct (VStruct (VInt code # VString msg # rest) # payload)) = Some code \<and>
   (Encode X request = Inr requestBytes \<and> Token srv w = (Inr token, wt) \<and>
    Post hc (incompleteURL @ QueryEscape X token) ctype requestBytes wt = (Inr respP, wp) \<and>
    StatusCode respP = 200 \<and> Decode X (Body respP) rty rv = (None, rvp) \<and>
    (rvp = VStruct (VInt 0 # VString msg # rest) \<or>
     rvp = VStruct (VStruct (VInt 0 # VString msg # rest) # payload))
    \<longrightarrow> (let out = PostJSON X srv hc incompleteURL request rty rv w
         in err out = Return None \<and> response out = rvp \<and> http_calls (calls out) = 1))
   \<and>
   (Token srv w = (Inr token, wt) \<and>
    Get hc (incompleteURL @ QueryEscape X token) wt = (Inr respG, wg) \<and>
    StatusCode respG = 200 \<and> Decode X (Body respG) rty rv = (None, rvg) \<and>
    (rvg = VStruct (VInt 0 # VString msg # rest) \<or>
     rvg = VStruct (VStruct (VInt 0 # VString msg # rest) # payload))
    \<longrightarrow> (let out = GetJSON X srv hc incompleteURL rty rv w
         in err out = Return None \<and> response out = rvg \<and> http_calls (calls out) = 1))"
proof (intro conjI impI; (elim conjE)?)
  assume "Field rvd 0 = Some f"
  then show "ErrorStructValue rvd = Some (if Kind f = KStruct then f else rvd)"
    by (simp add: ErrorStructValue_def)
next
  show "ErrCode_of (VStruct (VInt code # VString msg # rest)) = Some code"
    by (simp add: ErrCode_of_def ErrorStructValue_def)
next
  show "ErrCode_of (VStruct (VStruct (VInt code # VString msg # rest) # payload)) = Some code"
    by (simp add: ErrCode_of_def ErrorStructValue_def)
next
  assume e: "Encode X request = Inr requestBytes" and t: "Token srv w = (Inr token, wt)"
    and p: "Post hc (incompleteURL @ QueryEscape X token) ctype requestBytes wt = (Inr respP, wp)"
    and s: "StatusCode respP = 200" and d: "Decode X (Body respP) rty rv = (None, rvp)"
    and shape: "rvp = VStruct (VInt 0 # VString msg # rest) \<or>
                rvp = VStruct (VStruct (VInt 0 # VString msg # rest) # payload)"
  from shape have "ErrCode_of rvp = Some ErrCodeOK"
    by (auto simp: ErrCode_of_def ErrorStructValue_def ErrCodeOK_def)
  from PostJSON_RETRY_ok [OF p s d this] e t
  show "let out = PostJSON X srv hc incompleteURL request rty rv w
         in err out = Return None \<and> response out = rvp \<and> http_calls (calls out) = 1"
    by (simp add: PostJSON_def http_calls_def)
next
  assume t: "Token srv w = (Inr token, wt)"
    and p: "Get hc (incompleteURL @ QueryEscape X token) wt = (Inr respG, wg)"
    and s: "StatusCode respG = 200" and d: "Decode X (Body respG) rty rv = (None, rvg)"
    and shape: "rvg = VStruct (VInt 0 # VString msg # rest) \<or>
                rvg = VStruct (VStruct (VInt 0 # VString msg # rest) # payload)"
  from shape have "ErrCode_of rvg = Some ErrCodeOK"
    by (auto simp: ErrCode_of_def ErrorStructValue_def ErrCodeOK_def)
  from GetJSON_RETRY_ok [OF p s d this] t
  show "let out = GetJSON X srv hc incompleteURL rty rv w
         in err out = Return None \<and> response out = rvg \<and> http_calls (calls out) = 1"
    by (simp add: GetJSON_def http_calls_def)
qed

text \<open>
  Two runs: \<^verbatim>\<open>PostJSON\<close> into a bare status struct, \<^verbatim>\<open>GetJSON\<close> into a struct whose first
  field is the status struct and whose second field is a payload, which comes back.
\<close>

theorem status_struct_location_witness:
  "ErrorStructValue (VStruct [VInt 0, VString []]) = Some (VStruct [VInt 0, VString []]) \<and>
   ErrorStructValue (VStruct [VStruct [VInt 0, VString []], VSlice [VInt 3, VInt 4]])
     = Some (VStruct [VInt 0, VString []]) \<and>
   err (PostJSON demo_externals demo_server
     (scripted [ok200 (Some [Some (VInt 0), Some (VString [])])])
     ''/get?t='' ''{}'' (TStruct [TInt, TString]) (VStruct [VInt 0, VString []]) 0)
   = Return None \<and>
   response (PostJSON demo_externals demo_server
     (scripted [ok200 (Some [Some (VInt 0), Some (VString [])])])
     ''/get?t='' ''{}'' (TStruct [TInt, TString]) (VStruct [VInt 0, VString []]) 0)
   = VStruct [VInt 0, VString []] \<and>
   err (GetJSON demo_externals demo_server
     (scripted [ok200 (Some [Some (VStruct [VInt 0, VString []]), Some (VSlice [VInt 3, VInt 4])])])
     ''/get?t='' (TStruct [TStruct [TInt, TString], TSlice TInt])
     (VStruct [VStruct [VInt 0, VString []], VSlice []]) 0)
   = Return None \<and>
   response (GetJSON demo_externals demo_server
     (scripted [ok200 (Some [Some (VStruct [VInt 0, VString []]), Some (VSlice [VInt 3, VInt 4])])])
     ''/get?t='' (TStruct [TStruct [TInt, TString], TSlice TInt])
     (VStruct [VStruct [VInt 0, VString []], VSlice []]) 0)
   = VStruct [VStruct [VInt 0, VString []], VSlice [VInt 3, VInt 4]]"
  using status_struct_location [where X = demo_externals and srv = demo_server
      and hc = "scripted [ok200 (Some [Some (VInt 0), Some (VString [])])]"
      and incompleteURL = "''/get?t=''" and request = "''{}''" and requestBytes = "''{}''"
      and rty = "TStruct [TInt, TString]" and rv = "VStruct [VInt 0, VString []]"
      and w = 0 and wt = 0 and wp = 1 and wg = 1 and token = "''T1''"
      and respP = "ok200 (Some [Some (VInt 0), Some (VString [])])"
      and respG = "ok200 (Some [Some (VInt 0), Some (VString [])])"
      and rvp = "VStruct [VInt 0, VString []]" and rvg = "VStruct [VInt 0, VString []]"
      and msg = "[]" and rest = "[]" and payload = "[VSlice [VInt 3, VInt 4]]" and code = 0
      and rvd = "VStruct [VInt 0, VString []]" and f = "VInt 0"]
    status_struct_location [where X = demo_externals and srv = demo_server
      and hc = "scripted [ok200 (Some [Some (VStruct [VInt 0, VString []]), Some (VSlice [VInt 3, VInt 4])])]"
      and incompleteURL = "''/get?t=''" and request = "''{}''" and requestBytes = "''{}''"
      and rty = "TStruct [TStruct [TInt, TString], TSlice TInt]"
      and rv = "VStruct [VStruct [VInt 0, VString []], VSlice []]"
      and w = 0 and wt = 0 and wp = 1 and wg = 1 and token = "''T1''"
      and respP = "ok200 (Some [Some (VStruct [VInt 0, VString []]), Some (VSlice [VInt 3, VInt 4])])"
      and respG = "ok200 (Some [Some (VStruct [VInt 0, VString []]), Some (VSlice [VInt 3, VInt 4])])"
      and rvp = "VStruct [VStruct [VInt 0, VString []], VSlice [VInt 3, VInt 4]]"
      and rvg = "VStruct [VStruct [VInt 0, VString []], VSlice [VInt 3, VInt 4]]"
      and msg = "[]" and rest = "[]" and payload = "[VSlice [VInt 3, VInt 4]]" and code = 0
      and rvd = "VStruct [VStruct [VInt 0, VString []], VSlice [VInt 3, VInt 4]]"
      and f = "VStruct [VInt 0, VString []]"]
  by (simp add: demo_defs Let_def)

subsection \<open>C8: GetJSON is PostJSON without the body\<close>

text \<open>
  C8. Let the request encode without error, and let the HTTP client answer a POST of the
  encoded body to a URL as it answers a GET of that URL, in every world. Then \<^verbatim>\<open>GetJSON\<close>
  and \<^verbatim>\<open>PostJSON\<close>, given the same URL, token server, response variable and world, return
  the same \<^verbatim>\<open>err\<close>, leave the same response value and the same world, and make the same
  calls in the same order: the calls of \<^verbatim>\<open>PostJSON\<close> are those of \<^verbatim>\<open>GetJSON\<close> with the
  encoding of the body put first and with each GET made a POST carrying the body and
  the content type.
\<close>

theorem GetJSON_is_PostJSON_without_body:
  "Encode X request = Inr requestBytes \<and>
   (\<forall>url v. Post hc url ctype requestBytes v = Get hc url v)
   \<longrightarrow> (let outP = PostJSON X srv hc incompleteURL request rty rv w;
            outG = GetJSON X srv hc incompleteURL rty rv w
        in err outG = err outP \<and> response outG = response outP \<and> world outG = world outP \<and>
           CallEncode # calls outG = map as_get (calls outP))"
proof (intro impI; elim conjE)
  assume e: "Encode X request = Inr requestBytes"
    and same: "\<forall>url v. Post hc url ctype requestBytes v = Get hc url v"
  obtain r wt where t: "Token srv w = (r, wt)"
    by (cases "Token srv w")
  show "let outP = PostJSON X srv hc incompleteURL request rty rv w;
            outG = GetJSON X srv hc incompleteURL rty rv w
        in err outG = err outP \<and> response outG = response outP \<and> world outG = world outP \<and>
           CallEncode # calls outG = map as_get (calls outP)"
  proof (cases r)
    case (Inl fetch_error)
    with e t show ?thesis
      by (simp add: PostJSON_def GetJSON_def)
  next
    case (Inr token)
    let ?P = "PostJSON_RETRY X srv hc incompleteURL requestBytes rty token False rv wt
                [CallEncode, CallToken]"
    let ?G = "GetJSON_RETRY X srv hc incompleteURL rty token False rv wt []"
    have "?G \<lparr> calls := [CallEncode, CallToken] @ calls ?G \<rparr> =
          ?P \<lparr> calls := map as_get (calls ?P) \<rparr>"
      using RETRY_same [OF same, where tr = "[CallEncode, CallToken]" and X = X and srv = srv
          and incompleteURL = incompleteURL and rty = rty and token = token
          and hasRetried = False and rv = rv and w = wt]
        GetJSON_RETRY_calls_first [of X srv hc incompleteURL rty token rv wt "[CallEncode, CallToken]"]
      by simp
    then have both: "?G \<lparr> calls := CallEncode # CallToken # calls ?G \<rparr> =
                     ?P \<lparr> calls := map as_get (calls ?P) \<rparr>"
      by simp
    have eq: "err ?G = err ?P" "response ?G = response ?P" "world ?G = world ?P"
      "CallEncode # CallToken # calls ?G = map as_get (calls ?P)"
      using arg_cong [OF both, of err] arg_cong [OF both, of response]
        arg_cong [OF both, of world] arg_cong [OF both, of calls]
      by simp_all
    have p: "PostJSON X srv hc incompleteURL request rty rv w = ?P"
      using e t Inr by (simp add: PostJSON_def)
    have "GetJSON X srv hc incompleteURL rty rv w =
        GetJSON_RETRY X srv hc incompleteURL rty token False rv wt [CallToken]"
      using t Inr by (simp add: GetJSON_def)
    then have g: "GetJSON X srv hc incompleteURL rty rv w = ?G \<lparr> calls := [CallToken] @ calls ?G \<rparr>"
      using GetJSON_RETRY_calls_first [of X srv hc incompleteURL rty token rv wt "[CallToken]"]
      by simp
    show ?thesis
      unfolding p g using eq by (simp add: Let_def)
  qed
qed

text \<open>
  A run of both against a server that answers the expiry code first and code 0 after the
  refresh: the two runs agree, and the GETs are the POSTs without their body.
\<close>

theorem GetJSON_is_PostJSON_without_body_witness:
  "err (GetJSON demo_externals demo_server
         (scripted [ok200 (Some [Some (VInt 42001), Some (VString ''expired'')]),
                    ok200 (Some [Some (VInt 0), Some (VString ''ok'')])])
         ''/get?t='' (TStruct [TInt, TString]) (VStruct [VInt 0, VString []]) 0)
   = err (PostJSON demo_externals demo_server
         (scripted [ok200 (Some [Some (VInt 42001), Some (VString ''expired'')]),
                    ok200 (Some [Some (VInt 0), Some (VString ''ok'')])])
         ''/get?t='' ''{}'' (TStruct [TInt, TString]) (VStruct [VInt 0, VString []]) 0)
   \<and>
   response (GetJSON demo_externals demo_server
         (scripted [ok200 (Some [Some (VInt 42001), Some (VString ''expired'')]),
                    ok200 (Some [Some (VInt 0), Some (VString ''ok'')])])
         ''/get?t='' (TStruct [TInt, TString]) (VStruct [VInt 0, VString []]) 0)
   = response (PostJSON demo_externals demo_server
         (scripted [ok200 (Some [Some (VInt 42001), Some (VString ''expired'')]),
                    ok200 (Some [Some (VInt 0), Some (VString ''ok'')])])
         ''/get?t='' ''{}'' (TStruct [TInt, TString]) (VStruct [VInt 0, VString []]) 0)
   \<and>
   CallEncode # calls (GetJSON demo_externals demo_server
         (scripted [ok200 (Some [Some (VInt 42001), Some (VString ''expired'')]),
                    ok200 (Some [Some (VInt 0), Some (VString ''ok'')])])
         ''/get?t='' (TStruct [TInt, TString]) (VStruct [VInt 0, VString []]) 0)
   = map as_get (calls (PostJSON demo_externals demo_server
         (scripted [ok200 (Some [Some (VInt 42001), Some (VString ''expired'')]),
                    ok200 (Some [Some (VInt 0), Some (VString ''ok'')])])
         ''/get?t='' ''{}'' (TStruct [TInt, TString]) (VStruct [VInt 0, VString []]) 0))
   \<and>
   calls (PostJSON demo_externals demo_server
         (scripted [ok200 (Some [Some (VInt 42001), Some (VString ''expired'')]),
                    ok200 (Some [Some (VInt 0), Some (VString ''ok'')])])
         ''/get?t='' ''{}'' (TStruct [TInt, TString]) (VStruct [VInt 0, VString []]) 0)
   = [CallEncode, CallToken, CallPost ''/get?t=T1'' ctype ''{}'', CallDecode, CallTokenRefresh,
      CallPost ''/get?t=T2'' ctype ''{}'', CallDecode]"
  using GetJSON_is_PostJSON_without_body [where X = demo_externals and srv = demo_server
      and hc = "scripted [ok200 (Some [Some (VInt 42001), Some (VString ''expired'')]),
                    ok200 (Some [Some (VInt 0), Some (VString ''ok'')])]"
      and incompleteURL = "''/get?t=''" and request = "''{}''" and requestBytes = "''{}''"
      and rty = "TStruct [TInt, TString]" and rv = "VStruct [VInt 0, VString []]" and w = 0]
  by (simp add: demo_defs Let_def PostJSON_def PostJSON_RETRY.simps)

subsection \<open>C10: the request is encoded once and sent unchanged\<close>

lemma PostJSON_RETRY_calls_shape:
  "e \<in> set (calls (PostJSON_RETRY X srv hc incompleteURL requestBytes rty token hasRetried rv w []))
   \<Longrightarrow> e = CallDecode \<or> e = CallTokenRefresh \<or>
       (\<exists>tok. e = CallPost (incompleteURL @ QueryEscape X tok) ctype requestBytes)"
  by (cases hasRetried)
     (auto simp: PostJSON_RETRY_first PostJSON_RETRY_after Let_def
        split: prod.splits sum.splits option.splits if_splits)

text \<open>
  C10. In every call of \<^verbatim>\<open>PostJSON\<close> the encoding of the request is the first call made,
  before the token is fetched and before the loop, and it is made once. Every POST of the
  call, the one sent again after a refresh included, carries the bytes of that one
  encoding and the content type \<^verbatim>\<open>application/json; charset=utf-8\<close>; its URL is the
  incomplete URL followed by an escaped token, the only part that can differ between
  the two attempts.
\<close>

theorem request_encoded_once:
  "\<exists>later. calls (PostJSON X srv hc incompleteURL request rty rv w) = CallEncode # later \<and>
      CallEncode \<notin> set later \<and>
      (\<forall>u c b. CallPost u c b \<in> set later \<longrightarrow>
         Encode X request = Inr b \<and> c = ctype \<and>
         (\<exists>tok. u = incompleteURL @ QueryEscape X tok))"
proof (cases "Encode X request")
  case (Inl encode_error)
  then show ?thesis
    by (simp add: PostJSON_def)
next
  case (Inr requestBytes)
  obtain r wt where t: "Token srv w = (r, wt)"
    by (cases "Token srv w")
  show ?thesis
  proof (cases r)
    case (Inl fetch_error)
    with Inr t show ?thesis
      by (simp add: PostJSON_def)
  next
    case tok: (Inr token)
    let ?R = "PostJSON_RETRY X srv hc incompleteURL requestBytes rty token False rv wt []"
    have "calls (PostJSON X srv hc incompleteURL request rty rv w) =
            CallEncode # CallToken # calls ?R"
      using Inr t tok
        PostJSON_RETRY_calls_first [of X srv hc incompleteURL requestBytes rty token rv wt
          "[CallEncode, CallToken]"]
      by (simp add: PostJSON_def)
    moreover have "CallEncode \<notin> set (CallToken # calls ?R)"
      using PostJSON_RETRY_calls_shape [of CallEncode X srv hc incompleteURL requestBytes rty
          token False rv wt]
      by auto
    moreover have "\<forall>u c b. CallPost u c b \<in> set (CallToken # calls ?R) \<longrightarrow>
         Encode X request = Inr b \<and> c = ctype \<and>
         (\<exists>tok. u = incompleteURL @ QueryEscape X tok)"
    proof (intro allI impI)
      fix u c b
      assume "CallPost u c b \<in> set (CallToken # calls ?R)"
      then have "CallPost u c b \<in> set (calls ?R)"
        by simp
      from PostJSON_RETRY_calls_shape [OF this] Inr
      show "Encode X request = Inr b \<and> c = ctype \<and>
         (\<exists>tok. u = incompleteURL @ QueryEscape X tok)"
        by auto
    qed
    ultimately show ?thesis
      by blast
  qed
qed

text \<open>
  A run in which the retry fires: the second POST has the body of the first and the
  refreshed token in its URL.
\<close>

theorem request_encoded_once_witness:
  "calls (PostJSON demo_externals demo_server
         (scripted [ok200 (Some [Some (VInt 42001), Some (VString ''expired'')]),
                    ok200 (Some [Some (VInt 0), Some (VString ''ok'')])])
         ''/get?t='' ''{\"userid\":7}'' (TStruct [TInt, TString]) (VStruct [VInt 0, VString []]) 0)
   = [CallEncode, CallToken, CallPost ''/get?t=T1'' ctype ''{\"userid\":7}'', CallDecode,
      CallTokenRefresh, CallPost ''/get?t=T2'' ctype ''{\"userid\":7}'', CallDecode]
   \<and> Encode demo_externals ''{\"userid\":7}'' = Inr ''{\"userid\":7}''"
  using request_encoded_once [where X = demo_externals and srv = demo_server
      and hc = "scripted [ok200 (Some [Some (VInt 42001), Some (VString ''expired'')]),
                    ok200 (Some [Some (VInt 0), Some (VString ''ok'')])]"
      and incompleteURL = "''/get?t=''" and request = "''{\"userid\":7}''"
      and rty = "TStruct [TInt, TString]" and rv = "VStruct [VInt 0, VString []]" and w = 0]
  by (simp add: demo_defs Let_def PostJSON_def PostJSON_RETRY.simps)

end
